theory Spec2Isabelle
  imports Main "HOL-Library.Sublist"
begin

section \<open>Python strings\<close>

text \<open>
  A string is a list of characters, and a character is a code point below 256: the
  model covers the texts of ASCII and Latin-1 characters, and \<open>length\<close> counts code
  points as \<open>len\<close> does. The operations below are the \<open>str\<close> methods the sources call:
  \<open>k in s\<close>, \<open>s.lower()\<close>, \<open>s.strip()\<close>, \<open>s.startswith(p)\<close> (\<open>prefix\<close>), \<open>s.endswith(p)\<close>
  (\<open>suffix\<close>), \<open>s.replace(old, "")\<close> and \<open>s.split(",")\<close>; on code points below 256 they
  are the methods of Python. The fixed texts of the source hold a few characters above
  255 (a warning sign, two marks and a dash); they are written as their UTF-8 bytes: the code
  only hands these texts on, it never measures or searches them.
\<close>

definition contains :: "string \<Rightarrow> string \<Rightarrow> bool" where
  \<comment> \<open>\<open>k in s\<close>: \<open>k\<close> occurs in \<open>s\<close> as a contiguous run of characters\<close>
  "contains k s = sublist k s"

definition latin_upper :: string where
  \<comment> \<open>the capital letters of Latin-1 above ASCII: U+00C0 to U+00DE without U+00D7\<close>
  "latin_upper =
     [CHR 0xC0, CHR 0xC1, CHR 0xC2, CHR 0xC3, CHR 0xC4, CHR 0xC5, CHR 0xC6, CHR 0xC7,
      CHR 0xC8, CHR 0xC9, CHR 0xCA, CHR 0xCB, CHR 0xCC, CHR 0xCD, CHR 0xCE, CHR 0xCF,
      CHR 0xD0, CHR 0xD1, CHR 0xD2, CHR 0xD3, CHR 0xD4, CHR 0xD5, CHR 0xD6, CHR 0xD8,
      CHR 0xD9, CHR 0xDA, CHR 0xDB, CHR 0xDC, CHR 0xDD, CHR 0xDE]"

definition latin_lower :: string where
  \<comment> \<open>their small letters: U+00E0 to U+00FE without U+00F7\<close>
  "latin_lower =
     [CHR 0xE0, CHR 0xE1, CHR 0xE2, CHR 0xE3, CHR 0xE4, CHR 0xE5, CHR 0xE6, CHR 0xE7,
      CHR 0xE8, CHR 0xE9, CHR 0xEA, CHR 0xEB, CHR 0xEC, CHR 0xED, CHR 0xEE, CHR 0xEF,
      CHR 0xF0, CHR 0xF1, CHR 0xF2, CHR 0xF3, CHR 0xF4, CHR 0xF5, CHR 0xF6, CHR 0xF8,
      CHR 0xF9, CHR 0xFA, CHR 0xFB, CHR 0xFC, CHR 0xFD, CHR 0xFE]"

definition to_lower :: "char \<Rightarrow> char" where
  "to_lower c =
     (case map_of (zip ''ABCDEFGHIJKLMNOPQRSTUVWXYZ'' ''abcdefghijklmnopqrstuvwxyz'') c of
        Some l \<Rightarrow> l
      | None \<Rightarrow> (case map_of (zip latin_upper latin_lower) c of Some l \<Rightarrow> l | None \<Rightarrow> c))"

definition lower :: "string \<Rightarrow> string" where
  "lower s = map to_lower s"

definition is_space :: "char \<Rightarrow> bool" where
  \<comment> \<open>the code points below 256 that \<open>str.strip()\<close> removes: TAB, LF, VT, FF, CR, FS, GS,
      RS, US, space, NEL (U+0085) and the no-break space (U+00A0)\<close>
  "is_space c = ((of_char c :: nat) \<in> {9, 10, 11, 12, 13, 28, 29, 30, 31, 32, 133, 160})"

definition strip :: "string \<Rightarrow> string" where
  "strip s = rev (dropWhile is_space (rev (dropWhile is_space s)))"

fun remove_all :: "string \<Rightarrow> nat \<Rightarrow> string \<Rightarrow> string" where
  \<comment> \<open>\<open>s.replace(old, "")\<close> is \<open>remove_all old 0 s\<close>: occurrences are found left to right
      and do not overlap; the counter is the number of characters of the current
      occurrence still to drop\<close>
  "remove_all old n [] = []"
| "remove_all old (Suc n) (c # s) = remove_all old n s"
| "remove_all old 0 (c # s) =
     (if old \<noteq> [] \<and> prefix old (c # s) then remove_all old (length old - 1) s
      else c # remove_all old 0 s)"

fun split_at :: "char \<Rightarrow> string \<Rightarrow> string \<Rightarrow> string list" where
  \<comment> \<open>\<open>s.split(sep)\<close> for a separator of one character is \<open>split_at sep [] s\<close>\<close>
  "split_at sep cur [] = [cur]"
| "split_at sep cur (c # s) =
     (if c = sep then cur # split_at sep [] s else split_at sep (cur @ [c]) s)"

definition slice_to :: "int \<Rightarrow> 'a list \<Rightarrow> 'a list" where
  \<comment> \<open>\<open>xs[:n]\<close>; a negative \<open>n\<close> counts from the end\<close>
  "slice_to n xs = (if 0 \<le> n then take (nat n) xs else take (length xs - nat (- n)) xs)"

section \<open>Questions and the structure enforcer (question\_generator.py)\<close>

text \<open>
  \<open>Question\<close> is the \<open>TypedDict\<close> of the source; \<open>initial_code\<close> is its one optional key.
  The fields \<open>id\<close>, \<open>text\<close>, \<open>type\<close> and \<open>context\<close> carry the suffix \<open>_q\<close>. The enforcer
  is modelled on values: the dicts of the candidate list are distinct objects, as
  \<open>json.loads\<close> delivers them, so that writing the id of one entry changes no other.
\<close>

record question =
  id_q :: int
  text_q :: string
  type_q :: string
  difficulty :: string
  context_q :: string
  initial_code :: "string option"

definition intro_keywords :: "string list" where
  "intro_keywords =
     [''tell me about yourself'', ''walk me through your background'',
      ''introduce yourself'', ''background'', ''what interested you'']"

definition closing_keywords :: "string list" where
  "closing_keywords =
     [''why hire you'', ''why should we hire'', ''what unique value'',
      ''great fit for this role'', ''wrap up'', ''any questions for'']"

definition is_intro_question :: "question \<Rightarrow> bool" where
  "is_intro_question q = list_ex (\<lambda>keyword. contains keyword (lower (text_q q))) intro_keywords"

definition is_closing_question :: "question \<Rightarrow> bool" where
  "is_closing_question q =
     list_ex (\<lambda>keyword. contains keyword (lower (text_q q))) closing_keywords"

fun renumber :: "int \<Rightarrow> question list \<Rightarrow> question list" where
  \<comment> \<open>\<open>for idx, q in enumerate(qs, start=i): q["id"] = idx\<close>\<close>
  "renumber i [] = []"
| "renumber i (q # qs) = q\<lparr>id_q := i\<rparr> # renumber (i + 1) qs"

fun extract_parts ::
  "question list \<Rightarrow> question option \<Rightarrow> question option \<Rightarrow> question list \<Rightarrow>
   question option \<times> question option \<times> question list" where
  \<comment> \<open>the loop that picks the first intro, the first closing and the middle questions\<close>
  "extract_parts [] intro_q closing_q middle_questions = (intro_q, closing_q, middle_questions)"
| "extract_parts (q # qs) intro_q closing_q middle_questions =
     (if is_intro_question q \<and> intro_q = None then
        extract_parts qs (Some q) closing_q middle_questions
      else if is_closing_question q \<and> closing_q = None then
        extract_parts qs intro_q (Some q) middle_questions
      else extract_parts qs intro_q closing_q (middle_questions @ [q]))"

definition default_intro :: "string \<Rightarrow> question" where
  "default_intro role =
     \<lparr>id_q = 1,
      text_q = ''To get us started, could you walk me through your background and what specifically interested you about this '' @ role @ '' position?'',
      type_q = ''behavioral'', difficulty = ''easy'',
      context_q = ''Opening question to establish rapport'', initial_code = Some ''''\<rparr>"

definition default_closing :: "int \<Rightarrow> question" where
  \<comment> \<open>the enforcer builds it with id 999, the static bank with id 9999\<close>
  "default_closing i =
     \<lparr>id_q = i,
      text_q = ''Before we wrap up, why do you think you'd be a great fit for this role, and what unique value would you bring to our team?'',
      type_q = ''behavioral'', difficulty = ''medium'',
      context_q = ''Closing question to assess self-awareness and fit'',
      initial_code = Some ''''\<rparr>"

definition emergency_question :: question where
  "emergency_question =
     \<lparr>id_q = 0, text_q = ''Could you walk me through a technical challenge you've faced?'',
      type_q = ''technical'', difficulty = ''medium'', context_q = ''Emergency fallback'',
      initial_code = None\<rparr>"

definition add_context :: "string \<Rightarrow> question \<Rightarrow> question" where
  \<comment> \<open>\<open>new_q = copy.deepcopy(base_q); new_q["context"] += tag\<close>\<close>
  "add_context tag base_q = base_q\<lparr>context_q := context_q base_q @ tag\<rparr>"

function fill_gap :: "int \<Rightarrow> question list \<Rightarrow> nat \<Rightarrow> question list" where
  \<comment> \<open>the gap-filling \<open>while\<close> loop; the index is taken modulo the length of the list
      as it is at that iteration, clones included\<close>
  "fill_gap target_middle_count middle_questions current_fill_idx =
     (if int (length middle_questions) < target_middle_count then
        (if middle_questions = [] then
           fill_gap target_middle_count (middle_questions @ [emergency_question])
             current_fill_idx
         else
           fill_gap target_middle_count
             (middle_questions @
                [add_context '' (Extended discussion)''
                   (middle_questions ! (current_fill_idx mod length middle_questions))])
             (current_fill_idx + 1))
      else middle_questions)"
  by pat_completeness auto
termination
  by (relation "measure (\<lambda>(t, m, i). nat (t - int (length m)))") auto

declare fill_gap.simps [simp del]

definition enforce_interview_structure ::
  "question list \<Rightarrow> string \<Rightarrow> int \<Rightarrow> question list" where
  "enforce_interview_structure questions role num_questions =
     (if questions = [] then questions
      else
        let first_is_intro = is_intro_question (hd questions);
            last_is_closing =
              (if length questions > 2 then is_closing_question (last questions) else False)
        in
          if first_is_intro \<and> (length questions \<le> 2 \<or> last_is_closing) then
            renumber 1 questions
          else
            (case extract_parts questions None None [] of
               (found_intro, found_closing, middle_questions) \<Rightarrow>
                 let intro_q = (case found_intro of None \<Rightarrow> default_intro role | Some q \<Rightarrow> q);
                     closing_q =
                       (if found_closing = None \<and> num_questions > 2
                        then Some (default_closing 999) else found_closing);
                     target_middle_count =
                       num_questions - (if closing_q \<noteq> None then 2 else 1);
                     filled = fill_gap target_middle_count middle_questions 0;
                     final_questions =
                       (case closing_q of
                          Some c \<Rightarrow> [intro_q] @ slice_to target_middle_count filled @ [c]
                        | None \<Rightarrow> [intro_q] @ slice_to target_middle_count filled)
                 in slice_to num_questions (renumber 1 final_questions)))"

subsection \<open>Example questions\<close>

definition q_tell :: question where
  "q_tell = \<lparr>id_q = 1, text_q = ''Tell me about yourself.'', type_q = ''behavioral'',
     difficulty = ''easy'', context_q = ''Intro'', initial_code = None\<rparr>"

definition q_mutex :: question where
  "q_mutex = \<lparr>id_q = 2, text_q = ''What is a mutex?'', type_q = ''technical'',
     difficulty = ''easy'', context_q = ''Concurrency'', initial_code = None\<rparr>"

definition q_hire :: question where
  "q_hire = \<lparr>id_q = 3, text_q = ''Why should we hire you?'', type_q = ''behavioral'',
     difficulty = ''medium'', context_q = ''Closing'', initial_code = None\<rparr>"

section \<open>The static question bank (question\_bank.py)\<close>

definition bank_q1001 :: question where
  "bank_q1001 =
     \<lparr>id_q = 1001,
      text_q = ''For a start, I see you've worked with Python. If you were explaining the practical difference between a list and a tuple to a junior developer, how would you describe when it's absolutely critical to use one over the other?'',
      type_q = ''technical'', difficulty = ''easy'',
      context_q = ''Core Python proficiency with a conversational lens.'',
      initial_code = Some ''''\<rparr>"

definition bank_q1002 :: question where
  "bank_q1002 =
     \<lparr>id_q = 1002,
      text_q = ''I'm curious about your experience with advanced Python features. How have you used decorators in your previous projects to clean up or extend your code's functionality?'',
      type_q = ''technical'', difficulty = ''medium'',
      context_q = ''Advanced Python concepts in a practical context.'',
      initial_code = Some ''''\<rparr>"

definition bank_q1003 :: question where
  "bank_q1003 =
     \<lparr>id_q = 1003,
      text_q = ''Let's look at a quick coding scenario. Could you write a short function for me that takes a string and returns it reversed? For example, 'hello' becoming 'olleh'.'',
      type_q = ''coding'', difficulty = ''easy'',
      context_q = ''Basic algorithmic thinking.'',
      initial_code = Some ''def reverse_string(s):\<newline>    # Your code here\<newline>    pass''\<rparr>"

definition bank_q2001 :: question where
  "bank_q2001 =
     \<lparr>id_q = 2001,
      text_q = ''What is the difference between '==' and '===' in JavaScript?'',
      type_q = ''technical'', difficulty = ''easy'',
      context_q = ''JS fundamentals.'',
      initial_code = Some ''''\<rparr>"

definition bank_q2002 :: question where
  "bank_q2002 =
     \<lparr>id_q = 2002,
      text_q = ''Explain the concept of 'closures' in JavaScript with an example.'',
      type_q = ''technical'', difficulty = ''medium'',
      context_q = ''Scope and memory management in JS.'',
      initial_code = Some ''''\<rparr>"

definition bank_q2003 :: question where
  "bank_q2003 =
     \<lparr>id_q = 2003,
      text_q = ''Write a function that filters an array of numbers to return only the even ones.'',
      type_q = ''coding'', difficulty = ''easy'',
      context_q = ''Array manipulation in JS.'',
      initial_code = Some ''function filterEvens(arr) {\<newline>    // Your code here\<newline>}''\<rparr>"

definition bank_q3001 :: question where
  "bank_q3001 =
     \<lparr>id_q = 3001,
      text_q = ''What are React Hooks? Explain useState and useEffect.'',
      type_q = ''technical'', difficulty = ''easy'',
      context_q = ''Modern React development.'',
      initial_code = Some ''''\<rparr>"

definition bank_q3002 :: question where
  "bank_q3002 =
     \<lparr>id_q = 3002,
      text_q = ''What is the Virtual DOM, and how does React use it to improve performance?'',
      type_q = ''technical'', difficulty = ''medium'',
      context_q = ''React architecture.'',
      initial_code = Some ''''\<rparr>"

definition bank_q5001 :: question where
  "bank_q5001 =
     \<lparr>id_q = 5001,
      text_q = ''Could you walk me through your debugging process? For example, when you hit a complex bug that isn't immediately obvious, what steps do you take to isolate the root cause?'',
      type_q = ''technical'', difficulty = ''medium'',
      context_q = ''Debugging and problem-solving methodology.'',
      initial_code = Some ''''\<rparr>"

definition bank_q5002 :: question where
  "bank_q5002 =
     \<lparr>id_q = 5002,
      text_q = ''How do you approach testing your code? Do you lean more towards unit testing, integration testing, or a mix, and why?'',
      type_q = ''technical'', difficulty = ''easy'',
      context_q = ''Quality assurance mindset.'',
      initial_code = Some ''''\<rparr>"

definition bank_q5003 :: question where
  "bank_q5003 =
     \<lparr>id_q = 5003,
      text_q = ''When picking a new tool or library for a project, what criteria do you look for to decide if it's the right choice?'',
      type_q = ''technical'', difficulty = ''medium'',
      context_q = ''Tech stack decision making.'',
      initial_code = Some ''''\<rparr>"

definition bank_q4001 :: question where
  "bank_q4001 =
     \<lparr>id_q = 4001,
      text_q = ''I'd love to hear about a project that really challenged you. What was the biggest hurdle you hit, and how did you navigate through it to get the results you wanted?'',
      type_q = ''behavioral'', difficulty = ''medium'',
      context_q = ''Problem-solving and resilience.'',
      initial_code = Some ''''\<rparr>"

definition bank_q4002 :: question where
  "bank_q4002 =
     \<lparr>id_q = 4002,
      text_q = ''Thinking about your future, where do you see your career heading in the next couple of years, particularly in terms of the technical skills you want to master?'',
      type_q = ''behavioral'', difficulty = ''easy'',
      context_q = ''Ambition and career alignment.'',
      initial_code = Some ''''\<rparr>"

definition bank_q4003 :: question where
  "bank_q4003 =
     \<lparr>id_q = 4003,
      text_q = ''We all hit points of friction in a team. Could you share a time when you disagreed with a teammate? How did you approach that conversation to find a path forward?'',
      type_q = ''behavioral'', difficulty = ''easy'',
      context_q = ''Conflict resolution and teamwork.'',
      initial_code = Some ''''\<rparr>"

definition bank_q4004 :: question where
  "bank_q4004 =
     \<lparr>id_q = 4004,
      text_q = ''Can you describe a specific time you had to learn a new technology quickly to get a job done? How did you go about it?'',
      type_q = ''behavioral'', difficulty = ''medium'',
      context_q = ''Adaptability and learning agility.'',
      initial_code = Some ''''\<rparr>"

definition QUESTION_BANK :: "(string \<times> question list) list" where
  \<comment> \<open>the dict, in its insertion order, which is the order \<open>.items()\<close> iterates in\<close>
  "QUESTION_BANK =
     [(''python'', [bank_q1001, bank_q1002, bank_q1003]),
      (''javascript'', [bank_q2001, bank_q2002, bank_q2003]),
      (''react'', [bank_q3001, bank_q3002]),
      (''general_technical'', [bank_q5001, bank_q5002, bank_q5003]),
      (''general_behavioral'', [bank_q4001, bank_q4002, bank_q4003, bank_q4004])]"

definition bank_get :: "string \<Rightarrow> question list" where
  \<comment> \<open>\<open>QUESTION_BANK.get(key, [])\<close>\<close>
  "bank_get key = (case map_of QUESTION_BANK key of None \<Rightarrow> [] | Some questions \<Rightarrow> questions)"

definition gather_candidates :: "string \<Rightarrow> question list" where
  \<comment> \<open>step 2 of \<open>get_fallback_questions\<close>: the middle pool for a resume text\<close>
  "gather_candidates resume_text =
     (let resume_lower = lower resume_text;
          matched =
            concat (map snd (filter
              (\<lambda>(skill, questions).
                 skill \<notin> set [''general_behavioral'', ''general_technical'']
                 \<and> contains skill resume_lower)
              QUESTION_BANK));
          candidate_questions = (if matched = [] then matched @ bank_get ''python'' else matched);
          candidate_questions = candidate_questions @ bank_get ''general_technical'';
          behavioral_questions = bank_get ''general_behavioral''
      in candidate_questions @ behavioral_questions)"

function cyclic_fill ::
  "int \<Rightarrow> question list \<Rightarrow> question list \<Rightarrow> nat \<Rightarrow> question list" where
  \<comment> \<open>the cyclic-filling \<open>while\<close> loop: the pool is fixed, and a clone is tagged only
      when the index has wrapped around\<close>
  "cyclic_fill num_questions middle_pool final_questions current_idx =
     (if int (length final_questions) < num_questions - 1 then
        (if middle_pool = [] then final_questions
         else
           let base_q = middle_pool ! (current_idx mod length middle_pool);
               new_q =
                 (if current_idx \<ge> length middle_pool
                  then add_context '' (Follow-up / Alternate angle)'' base_q else base_q)
           in cyclic_fill num_questions middle_pool (final_questions @ [new_q])
                (current_idx + 1))
      else final_questions)"
  by pat_completeness auto
termination
  by (relation "measure (\<lambda>(n, p, f, i). nat (n - 1 - int (length f)))") auto

declare cyclic_fill.simps [simp del]

definition build_sequence :: "string \<Rightarrow> string \<Rightarrow> int \<Rightarrow> question list" where
  \<comment> \<open>steps 1, 3 and 4: intro, cyclic filling, closing; ids not yet reassigned\<close>
  "build_sequence resume_text role num_questions =
     (let intro_question = default_intro role;
          middle_pool = gather_candidates resume_text;
          final_questions = cyclic_fill num_questions middle_pool [intro_question] 0
      in if num_questions > 1 then final_questions @ [default_closing 9999]
         else final_questions)"

definition get_fallback_questions :: "string \<Rightarrow> string \<Rightarrow> int \<Rightarrow> question list" where
  "get_fallback_questions resume_text role num_questions =
     slice_to num_questions (renumber 1 (build_sequence resume_text role num_questions))"

subsection \<open>The same function on a store of dict objects\<close>

text \<open>
  The questions are mutable dicts, and the bank's dicts are shared by every call. Here a
  reference is an index into the store, the list of all dict objects allocated so far;
  a new dict is appended to it. The module's bank occupies the references 0..14, in
  the order of the source. The lists of the bank are only read by the function (the
  pool is built by \<open>extend\<close> on a fresh list and by \<open>+\<close>), so they are kept as values.
\<close>

type_synonym ref = nat

type_synonym store = "question list"

definition bank_store :: store where
  "bank_store = concat (map snd QUESTION_BANK)"

definition BANK_REFS :: "(string \<times> ref list) list" where
  "BANK_REFS =
     [(''python'', [0, 1, 2]), (''javascript'', [3, 4, 5]), (''react'', [6, 7]),
      (''general_technical'', [8, 9, 10]), (''general_behavioral'', [11, 12, 13, 14])]"

definition new_dict :: "question \<Rightarrow> store \<Rightarrow> ref \<times> store" where
  "new_dict q h = (length h, h @ [q])"

definition deepcopy :: "ref \<Rightarrow> store \<Rightarrow> ref \<times> store" where
  "deepcopy r h = new_dict (h ! r) h"

definition append_context :: "ref \<Rightarrow> string \<Rightarrow> store \<Rightarrow> store" where
  \<comment> \<open>\<open>q["context"] += tag\<close>\<close>
  "append_context r tag h = h[r := add_context tag (h ! r)]"

definition set_id :: "ref \<Rightarrow> int \<Rightarrow> store \<Rightarrow> store" where
  \<comment> \<open>\<open>q["id"] = idx\<close>\<close>
  "set_id r idx h = h[r := (h ! r)\<lparr>id_q := idx\<rparr>]"

definition refs_get :: "string \<Rightarrow> ref list" where
  "refs_get key = (case map_of BANK_REFS key of None \<Rightarrow> [] | Some refs \<Rightarrow> refs)"

definition gather_candidates_refs :: "string \<Rightarrow> ref list" where
  "gather_candidates_refs resume_text =
     (let resume_lower = lower resume_text;
          matched =
            concat (map snd (filter
              (\<lambda>(skill, questions).
                 skill \<notin> set [''general_behavioral'', ''general_technical'']
                 \<and> contains skill resume_lower)
              BANK_REFS));
          candidate_questions = (if matched = [] then matched @ refs_get ''python'' else matched);
          candidate_questions = candidate_questions @ refs_get ''general_technical'';
          behavioral_questions = refs_get ''general_behavioral''
      in candidate_questions @ behavioral_questions)"

function cyclic_fill_refs ::
  "int \<Rightarrow> ref list \<Rightarrow> ref list \<Rightarrow> nat \<Rightarrow> store \<Rightarrow> ref list \<times> store" where
  "cyclic_fill_refs num_questions middle_pool final_questions current_idx h =
     (if int (length final_questions) < num_questions - 1 then
        (if middle_pool = [] then (final_questions, h)
         else
           let base_q = middle_pool ! (current_idx mod length middle_pool);
               (new_q, h1) = deepcopy base_q h;
               h2 =
                 (if current_idx \<ge> length middle_pool
                  then append_context new_q '' (Follow-up / Alternate angle)'' h1 else h1)
           in cyclic_fill_refs num_questions middle_pool (final_questions @ [new_q])
                (current_idx + 1) h2)
      else (final_questions, h))"
  by pat_completeness auto
termination
  by (relation "measure (\<lambda>(n, p, f, i, h). nat (n - 1 - int (length f)))")
    (auto simp: deepcopy_def new_dict_def)

declare cyclic_fill_refs.simps [simp del]

fun renumber_refs :: "int \<Rightarrow> ref list \<Rightarrow> store \<Rightarrow> store" where
  "renumber_refs i [] h = h"
| "renumber_refs i (r # rs) h = renumber_refs (i + 1) rs (set_id r i h)"

definition get_fallback_questions_refs ::
  "string \<Rightarrow> string \<Rightarrow> int \<Rightarrow> store \<Rightarrow> ref list \<times> store" where
  "get_fallback_questions_refs resume_text role num_questions h =
     (let (intro_question, h) = new_dict (default_intro role) h;
          middle_pool = gather_candidates_refs resume_text;
          (final_questions, h) =
            cyclic_fill_refs num_questions middle_pool [intro_question] 0 h;
          (final_questions, h) =
            (if num_questions > 1 then
               (let (closing_question, h) = new_dict (default_closing 9999) h
                in (final_questions @ [closing_question], h))
             else (final_questions, h));
          h = renumber_refs 1 final_questions h
      in (slice_to num_questions final_questions, h))"

fun run_calls :: "(string \<times> string \<times> int) list \<Rightarrow> store \<Rightarrow> store" where
  \<comment> \<open>the store after a series of calls of \<open>get_fallback_questions\<close>\<close>
  "run_calls [] h = h"
| "run_calls ((resume_text, role, num_questions) # calls) h =
     run_calls calls (snd (get_fallback_questions_refs resume_text role num_questions h))"

definition drawn_from :: "string \<Rightarrow> question \<Rightarrow> bool" where
  \<comment> \<open>the question is an entry of that category of the bank, up to its id and the
      tag added to its context\<close>
  "drawn_from category q =
     list_ex (\<lambda>b. q\<lparr>id_q := id_q b, context_q := context_q b\<rparr> = b) (bank_get category)"

section \<open>Credential and model rotation (ai\_utils.py)\<close>

text \<open>
  An exception is a value. An error of the generation service carries a numeric status
  code and a message, and \<open>str\<close> renders it as the code, a space and the message; an
  exception raised by Python code carries its class name and its message, and \<open>str\<close>
  gives the message.
\<close>

datatype error = ApiError nat string | PyError string string

function show_nat :: "nat \<Rightarrow> string" where
  "show_nat n =
     (if n < 10 then [''0123456789'' ! n] else show_nat (n div 10) @ [''0123456789'' ! (n mod 10)])"
  by pat_completeness auto
termination
  by (relation "measure id") auto

declare show_nat.simps [simp del]

fun str_error :: "error \<Rightarrow> string" where
  "str_error (ApiError status message) = show_nat status @ '' '' @ message"
| "str_error (PyError class_name message) = message"

datatype error_class = Quota | ModelUnavailable | Transient

definition classify_error :: "string \<Rightarrow> error_class" where
  \<comment> \<open>the tests of the rotation's \<open>except\<close> branch, on \<open>err_str = str(e)\<close>\<close>
  "classify_error err_str =
     (if contains ''429'' err_str then Quota
      else if contains ''404'' err_str then ModelUnavailable
      else Transient)"

definition CANDIDATE_MODELS :: "string list" where
  "CANDIDATE_MODELS =
     [''gemini-2.5-flash'', ''gemini-2.5-pro'', ''gemini-2.0-flash'',
      ''gemini-2.0-flash-lite'', ''gemini-flash-latest'', ''gemini-pro-latest'']"

definition get_api_keys :: "(string \<rightharpoonup> string) \<Rightarrow> string list" where
  \<comment> \<open>the argument is the process environment, \<open>os.getenv\<close>\<close>
  "get_api_keys getenv =
     (let keys_str = getenv ''RECRUITER_API_KEYS'';
          keys_str =
            (if keys_str = None \<or> keys_str = Some [] then getenv ''GEMINI_API_KEYS''
             else keys_str)
      in case keys_str of
           None \<Rightarrow> []
         | Some s \<Rightarrow>
             if s = [] then []
             else map strip (filter (\<lambda>k. strip k \<noteq> []) (split_at CHR '','' [] s)))"

text \<open>
  The generation service is a state machine of any state type: each call of the
  library returns its outcome and the next state. \<open>generate_content\<close> stands for building
  the model object and calling it, and gives the text of the response or the exception
  raised on the way; \<open>delete_file\<close> cannot fail for the caller, who swallows its
  exceptions. The pauses (\<open>time.sleep\<close>) and the prints are left out.
\<close>

record 'st service =
  configure :: "string \<Rightarrow> 'st \<Rightarrow> error option \<times> 'st"
  upload_file :: "string \<Rightarrow> 'st \<Rightarrow> (error + string) \<times> 'st"
  generate_content ::
    "string \<Rightarrow> bool \<Rightarrow> string option \<Rightarrow> string \<Rightarrow> 'st \<Rightarrow> (error + string) \<times> 'st"
  delete_file :: "string \<Rightarrow> 'st \<Rightarrow> 'st"

type_synonym attempt = "nat \<times> nat \<times> (error + string)"

text \<open>
  The state of one rotation call: the state of the service, \<open>last_error\<close>, and the
  generation attempts made so far, each with the index of its key, the index of its
  model and its outcome.
\<close>

record 'st rotation =
  svc_state :: 'st
  last_error :: "error option"
  attempts :: "attempt list"

definition release :: "'st service \<Rightarrow> string option \<Rightarrow> 'st rotation \<Rightarrow> 'st rotation" where
  \<comment> \<open>\<open>if multimodal_file: try: genai.delete_file(...) except: pass\<close>\<close>
  "release svc multimodal_file s =
     (case multimodal_file of
        None \<Rightarrow> s
      | Some f \<Rightarrow> s\<lparr>svc_state := delete_file svc f (svc_state s)\<rparr>)"

fun model_loop ::
  "'st service \<Rightarrow> nat \<Rightarrow> bool \<Rightarrow> string option \<Rightarrow> string \<Rightarrow> nat \<Rightarrow> string list \<Rightarrow>
   'st rotation \<Rightarrow> string option \<times> 'st rotation" where
  \<comment> \<open>the inner loop; \<open>Some text\<close> is the \<open>return\<close>, \<open>None\<close> the end of the loop or its \<open>break\<close>\<close>
  "model_loop svc key_index is_json multimodal_file prompt model_index [] s = (None, s)"
| "model_loop svc key_index is_json multimodal_file prompt model_index (model_name # rest) s =
     (case generate_content svc model_name is_json multimodal_file prompt (svc_state s) of
        (Inr response_text, st) \<Rightarrow>
          (let s1 = s\<lparr>svc_state := st,
                      attempts := attempts s @ [(key_index, model_index, Inr response_text)]\<rparr>
           in if response_text \<noteq> [] then (Some response_text, release svc multimodal_file s1)
              else model_loop svc key_index is_json multimodal_file prompt (model_index + 1)
                     rest s1)
      | (Inl e, st) \<Rightarrow>
          (let err_str = str_error e;
               s1 = s\<lparr>svc_state := st, last_error := Some e,
                      attempts := attempts s @ [(key_index, model_index, Inl e)]\<rparr>
           in case classify_error err_str of
                Quota \<Rightarrow> (None, s1)
              | ModelUnavailable \<Rightarrow>
                  model_loop svc key_index is_json multimodal_file prompt (model_index + 1)
                    rest s1
              | Transient \<Rightarrow>
                  model_loop svc key_index is_json multimodal_file prompt (model_index + 1)
                    rest s1))"

datatype upload = Skip_key | Ready "string option"

definition upload_for_key ::
  "'st service \<Rightarrow> string option \<Rightarrow> 'st rotation \<Rightarrow> upload \<times> 'st rotation" where
  \<comment> \<open>the upload block: \<open>Skip_key\<close> is its \<open>continue\<close>; a quota failure of the upload does
      not set \<open>last_error\<close>, any other failure does\<close>
  "upload_for_key svc multimodal_filepath s =
     (case multimodal_filepath of
        None \<Rightarrow> (Ready None, s)
      | Some path \<Rightarrow>
          if path = [] then (Ready None, s)
          else
            (case upload_file svc path (svc_state s) of
               (Inr f, st) \<Rightarrow> (Ready (Some f), s\<lparr>svc_state := st\<rparr>)
             | (Inl upload_err, st) \<Rightarrow>
                 if contains ''429'' (str_error upload_err) then (Skip_key, s\<lparr>svc_state := st\<rparr>)
                 else (Skip_key, s\<lparr>svc_state := st, last_error := Some upload_err\<rparr>)))"

fun key_loop ::
  "'st service \<Rightarrow> bool \<Rightarrow> string option \<Rightarrow> string list \<Rightarrow> string \<Rightarrow> nat \<Rightarrow> string list \<Rightarrow>
   'st rotation \<Rightarrow> string option \<times> 'st rotation" where
  \<comment> \<open>the outer loop over the keys\<close>
  "key_loop svc is_json multimodal_filepath models_to_try prompt key_index [] s = (None, s)"
| "key_loop svc is_json multimodal_filepath models_to_try prompt key_index (api_key # rest) s =
     (case configure svc api_key (svc_state s) of
        (Some key_setup_err, st) \<Rightarrow>
          key_loop svc is_json multimodal_filepath models_to_try prompt (key_index + 1) rest
            (s\<lparr>svc_state := st\<rparr>)
      | (None, st) \<Rightarrow>
          (case upload_for_key svc multimodal_filepath (s\<lparr>svc_state := st\<rparr>) of
             (Skip_key, s1) \<Rightarrow>
               key_loop svc is_json multimodal_filepath models_to_try prompt (key_index + 1)
                 rest s1
           | (Ready multimodal_file, s1) \<Rightarrow>
               (case model_loop svc key_index is_json multimodal_file prompt 0 models_to_try s1 of
                  (Some response_text, s2) \<Rightarrow> (Some response_text, s2)
                | (None, s2) \<Rightarrow>
                    key_loop svc is_json multimodal_filepath models_to_try prompt
                      (key_index + 1) rest (release svc multimodal_file s2))))"

definition run_genai_with_rotation ::
  "'st service \<Rightarrow> (string \<rightharpoonup> string) \<Rightarrow> string \<Rightarrow> bool \<Rightarrow> string option \<Rightarrow>
   string list option \<Rightarrow> 'st \<Rightarrow> (error + string) \<times> 'st rotation" where
  "run_genai_with_rotation svc getenv prompt is_json multimodal_filepath custom_models st =
     (let keys = get_api_keys getenv;
          s0 = \<lparr>svc_state = st, last_error = None, attempts = []\<rparr>
      in if keys = [] then (Inl (PyError ''ValueError'' ''No GEMINI_API_KEY found in .env''), s0)
         else
           (let models_to_try =
                  (case custom_models of
                     None \<Rightarrow> CANDIDATE_MODELS
                   | Some ms \<Rightarrow> if ms = [] then CANDIDATE_MODELS else ms)
            in case key_loop svc is_json multimodal_filepath models_to_try prompt 0 keys s0 of
                 (Some response_text, s) \<Rightarrow> (Inr response_text, s)
               | (None, s) \<Rightarrow>
                   (case last_error s of
                      Some e \<Rightarrow> (Inl e, s)
                    | None \<Rightarrow>
                        (Inl (PyError ''Exception'' ''All API keys and models failed.''), s))))"

subsection \<open>The order of the attempts\<close>

text \<open>
  Two attempts of one call are in order when the earlier one has the smaller key index,
  or the same key index, a smaller model index and was no quota failure.
\<close>

definition is_quota_failure :: "attempt \<Rightarrow> bool" where
  "is_quota_failure a =
     (case snd (snd a) of Inl e \<Rightarrow> classify_error (str_error e) = Quota | Inr _ \<Rightarrow> False)"

definition in_order :: "attempt \<Rightarrow> attempt \<Rightarrow> bool" where
  "in_order a b =
     (fst a < fst b \<or> (fst a = fst b \<and> fst (snd a) < fst (snd b) \<and> \<not> is_quota_failure a))"

text \<open>
  An example service: the first key is out of quota, any other key answers.
\<close>

definition svc_two_keys :: "string service" where
  "svc_two_keys =
     \<lparr>configure = (\<lambda>api_key st. (None, api_key)),
      upload_file = (\<lambda>path st. (Inr ''files/1'', st)),
      generate_content = (\<lambda>model_name is_json file prompt st.
         (if st = ''key0'' then Inl (ApiError 429 ''Resource exhausted'') else Inr ''ok'', st)),
      delete_file = (\<lambda>f st. st)\<rparr>"

section \<open>JSON values and Python library calls\<close>

text \<open>
  What \<open>json.loads\<close> returns: \<open>None\<close>, booleans, integers, strings, lists and dicts
  (numbers with a fraction are not modelled). \<open>json.loads\<close>, \<open>json.dumps\<close>, \<open>str\<close> on a
  value that is no string and the constructors of the pydantic models are library code:
  the functions below take them as arguments.
\<close>

datatype json =
  JNull | JBool bool | JInt int | JStr string | JList "json list" | JObj "(string \<times> json) list"

type_synonym loads = "string \<Rightarrow> error + json"

fun type_name :: "json \<Rightarrow> string" where
  "type_name JNull = ''NoneType''"
| "type_name (JBool b) = ''bool''"
| "type_name (JInt i) = ''int''"
| "type_name (JStr s) = ''str''"
| "type_name (JList xs) = ''list''"
| "type_name (JObj m) = ''dict''"

definition no_attribute :: "json \<Rightarrow> string \<Rightarrow> error" where
  "no_attribute v attr =
     PyError ''AttributeError''
       ([CHR 0x27] @ type_name v @ [CHR 0x27] @ '' object has no attribute '' @
        [CHR 0x27] @ attr @ [CHR 0x27])"

fun dict_get :: "json \<Rightarrow> string \<Rightarrow> json \<Rightarrow> error + json" where
  \<comment> \<open>\<open>data.get(key, dflt)\<close>\<close>
  "dict_get (JObj m) key dflt = Inr (case map_of m key of None \<Rightarrow> dflt | Some v \<Rightarrow> v)"
| "dict_get v key dflt = Inl (no_attribute v ''get'')"

fun truthy :: "json \<Rightarrow> bool" where
  "truthy JNull = False"
| "truthy (JBool b) = b"
| "truthy (JInt i) = (i \<noteq> 0)"
| "truthy (JStr s) = (s \<noteq> [])"
| "truthy (JList xs) = (xs \<noteq> [])"
| "truthy (JObj m) = (m \<noteq> [])"

definition show_int :: "int \<Rightarrow> string" where
  "show_int i = (if i < 0 then ''-'' @ show_nat (nat (- i)) else show_nat (nat i))"

definition and_then :: "'e + 'a \<Rightarrow> ('a \<Rightarrow> 'e + 'b) \<Rightarrow> 'e + 'b" where
  \<comment> \<open>sequencing: an exception ends the block\<close>
  "and_then r f = (case r of Inl e \<Rightarrow> Inl e | Inr v \<Rightarrow> f v)"

subsection \<open>A reader for flat JSON objects\<close>

text \<open>
  For the examples: \<open>json.loads\<close> on the texts that are one object whose values are
  strings without escapes, integers, \<open>true\<close>, \<open>false\<close> or \<open>null\<close>. Any other text is
  rejected here, and the message of the error carries no position.
\<close>

definition is_json_ws :: "char \<Rightarrow> bool" where
  "is_json_ws c = (c \<in> set [CHR '' '', CHR 0x09, CHR 0x0A, CHR 0x0D])"

definition skip_ws :: "string \<Rightarrow> string" where
  "skip_ws cs = dropWhile is_json_ws cs"

definition is_digit :: "char \<Rightarrow> bool" where
  "is_digit c = (c \<in> set ''0123456789'')"

definition nat_of_digits :: "string \<Rightarrow> nat" where
  "nat_of_digits ds = foldl (\<lambda>n c. 10 * n + (of_char c - 48)) 0 ds"

definition parse_quoted :: "string \<Rightarrow> (string \<times> string) option" where
  "parse_quoted cs =
     (case cs of
        [] \<Rightarrow> None
      | c # rest \<Rightarrow>
          if c \<noteq> CHR 0x22 then None
          else
            (let body = takeWhile (\<lambda>c. c \<noteq> CHR 0x22) rest;
                 after = dropWhile (\<lambda>c. c \<noteq> CHR 0x22) rest
             in if after = [] \<or> list_ex (\<lambda>c. c = CHR 0x5C \<or> (of_char c :: nat) < 32) body
                then None else Some (body, tl after)))"

definition parse_number :: "string \<Rightarrow> (json \<times> string) option" where
  "parse_number cs =
     (let negative = (cs \<noteq> [] \<and> hd cs = CHR ''-'');
          cs1 = (if negative then tl cs else cs);
          digits = takeWhile is_digit cs1;
          rest = dropWhile is_digit cs1
      in if digits = [] \<or> (length digits > 1 \<and> hd digits = CHR ''0'')
            \<or> (rest \<noteq> [] \<and> hd rest \<in> set ''.eE'')
         then None
         else Some (JInt (if negative then - int (nat_of_digits digits)
                          else int (nat_of_digits digits)), rest))"

definition parse_scalar :: "string \<Rightarrow> (json \<times> string) option" where
  "parse_scalar cs =
     (if prefix ''true'' cs then Some (JBool True, drop 4 cs)
      else if prefix ''false'' cs then Some (JBool False, drop 5 cs)
      else if prefix ''null'' cs then Some (JNull, drop 4 cs)
      else if cs \<noteq> [] \<and> hd cs = CHR 0x22 then
        (case parse_quoted cs of None \<Rightarrow> None | Some (s, rest) \<Rightarrow> Some (JStr s, rest))
      else parse_number cs)"

fun parse_members ::
  "nat \<Rightarrow> string \<Rightarrow> (string \<times> json) list \<Rightarrow> ((string \<times> json) list \<times> string) option" where
  \<comment> \<open>the members after \<open>{\<close>; the first argument bounds the number of members by the
      length of the text; a repeated key keeps its last value\<close>
  "parse_members 0 cs acc = None"
| "parse_members (Suc n) cs acc =
     (case parse_quoted cs of
        None \<Rightarrow> None
      | Some (key, r1) \<Rightarrow>
          (case skip_ws r1 of
             [] \<Rightarrow> None
           | c # r2 \<Rightarrow>
               if c \<noteq> CHR '':'' then None
               else
                 (case parse_scalar (skip_ws r2) of
                    None \<Rightarrow> None
                  | Some (v, r3) \<Rightarrow>
                      (let acc1 = filter (\<lambda>(k, _). k \<noteq> key) acc @ [(key, v)]
                       in case skip_ws r3 of
                            [] \<Rightarrow> None
                          | d # r4 \<Rightarrow>
                              if d = CHR '','' then parse_members n (skip_ws r4) acc1
                              else if d = CHR ''}'' then Some (acc1, r4)
                              else None))))"

definition loads_flat :: loads where
  "loads_flat s =
     (let bad = Inl (PyError ''JSONDecodeError'' ''Expecting value'')
      in case skip_ws s of
           [] \<Rightarrow> bad
         | c # r \<Rightarrow>
             if c \<noteq> CHR ''{'' then bad
             else if prefix ''}'' (skip_ws r) then
               (if skip_ws (drop 1 (skip_ws r)) = [] then Inr (JObj []) else bad)
             else
               (case parse_members (length s) (skip_ws r) [] of
                  None \<Rightarrow> bad
                | Some (members, rest) \<Rightarrow>
                    if skip_ws rest = [] then Inr (JObj members) else bad))"

section \<open>Answer evaluation (evaluator.py)\<close>

record evaluation_result =
  score :: int
  feedback :: string
  missing_keywords :: "string list"
  improvements :: string
  ideal_answer :: string

text \<open>
  The constructor \<open>EvaluationResult(score=..., feedback=..., missing_keywords=...,
  improvements=..., ideal_answer=...)\<close> validates its five arguments and raises on a
  value it does not accept.
\<close>

type_synonym new_evaluation_result =
  "json \<Rightarrow> json \<Rightarrow> json \<Rightarrow> json \<Rightarrow> json \<Rightarrow> error + evaluation_result"

definition is_skipped :: "string \<Rightarrow> bool" where
  "is_skipped answer =
     (answer = [] \<or> strip answer = [] \<or> contains ''no answer provided'' (lower answer))"

text \<open>The fixed parts of the prompt, in order.\<close>

definition evaluation_text_1 :: string where
  "evaluation_text_1 =
     ''\<newline>'' @
     ''        You are an expert technical interviewer evaluating a candidate's response.\<newline>'' @
     ''        \<newline>'' @
     ''        QUESTION: \"''"

definition evaluation_text_2 :: string where
  "evaluation_text_2 =
     ''\"\<newline>'' @
     ''        CANDIDATE ANSWER: \"''"

definition evaluation_text_3 :: string where
  "evaluation_text_3 =
     ''\"\<newline>'' @
     ''        \<newline>'' @
     ''        OBJECTIVES:\<newline>'' @
     ''        1. Score the answer from 0-10. ''"

definition evaluation_text_4 :: string where
  "evaluation_text_4 =
     ''\<newline>'' @
     ''        2. Provide helpful feedback.\<newline>'' @
     ''        3. **CRITICAL**: Provide the PERECT 'Ideal Answer'. ''"

definition evaluation_text_5 :: string where
  "evaluation_text_5 =
     ''\<newline>'' @
     ''        \<newline>'' @
     ''        **CONSTRAINT: KEEP THE IDEAL ANSWER VERY SHORT AND CONCISE (Max 2-3 sentences). Be direct.**\<newline>'' @
     ''        \<newline>'' @
     ''        RETURN JSON ONLY:\<newline>'' @
     ''        {\<newline>'' @
     ''            \"score\": int,\<newline>'' @
     ''            \"feedback\": \"string\",\<newline>'' @
     ''            \"missing_keywords\": [\"list\", \"of\", \"key\", \"terms\", \"missed\"],\<newline>'' @
     ''            \"improvements\": \"string (what to do better)\",\<newline>'' @
     ''            \"ideal_answer\": \"string (Max 2-3 sentences, direct and simple)\"\<newline>'' @
     ''        }\<newline>'' @
     ''        ''"

definition evaluation_prompt :: "string \<Rightarrow> string \<Rightarrow> bool \<Rightarrow> string" where
  "evaluation_prompt question answer skipped =
     evaluation_text_1 @ question @ evaluation_text_2 @
     (if skipped then ''NO ANSWER PROVIDED. CANDIDATE SKIPPED.'' else answer) @
     evaluation_text_3 @
     (if skipped then ''(MUST BE 0 since candidate skipped)'' else ''(Be fair and critical)'') @
     evaluation_text_4 @
     (if skipped then ''Since the candidate skipped, create a 10/10 answer.''
      else ''Show what a 10/10 answer looks like.'') @
     evaluation_text_5"

definition strip_fences :: "string \<Rightarrow> string" where
  \<comment> \<open>the ``robust JSON cleanup'' of the response text\<close>
  "strip_fences response_text =
     (let text = strip response_text;
          text = (if prefix ''```json'' text then drop 7 text else text);
          text = (if prefix ''```'' text then drop 3 text else text);
          text = (if suffix ''```'' text then slice_to (- 3) text else text)
      in strip text)"

definition fallback_evaluate ::
  "string \<Rightarrow> string \<Rightarrow> string list \<Rightarrow> string \<Rightarrow> evaluation_result" where
  \<comment> \<open>the first feedback text starts with a warning sign (U+26A0 U+FE0F), here in UTF-8\<close>
  "fallback_evaluate question answer context_keywords error_msg =
     (if contains ''429'' error_msg then
        \<lparr>score = 0,
         feedback = [CHR 0xE2, CHR 0x9A, CHR 0xA0, CHR 0xEF, CHR 0xB8, CHR 0x8F] @
           '' API Quota Limit Reached. AI evaluation is temporarily paused.'',
         missing_keywords = [],
         improvements = ''Please wait a few minutes or add more API keys to the .env file.'',
         ideal_answer = ''Generative AI is currently taking a short break to recharge usage limits. Please check back in a bit!''\<rparr>
      else
        \<lparr>score = 0,
         feedback = ''Evaluation service unavailable. Error: '' @ slice_to 100 error_msg @ ''...'',
         missing_keywords = [],
         improvements = ''Check API Connection.'',
         ideal_answer = ''No ideal answer provided.''\<rparr>)"

definition evaluation_of :: "new_evaluation_result \<Rightarrow> json \<Rightarrow> error + evaluation_result" where
  \<comment> \<open>\<open>EvaluationResult(score=data.get("score", 0), ...)\<close>\<close>
  "evaluation_of new_result data =
     and_then (dict_get data ''score'' (JInt 0)) (\<lambda>score_v.
     and_then (dict_get data ''feedback'' (JStr ''No feedback provided.'')) (\<lambda>feedback_v.
     and_then (dict_get data ''missing_keywords'' (JList [])) (\<lambda>keywords_v.
     and_then (dict_get data ''improvements'' (JStr ''No specific improvements suggested.''))
       (\<lambda>improvements_v.
     and_then (dict_get data ''ideal_answer'' (JStr ''No ideal answer provided.'')) (\<lambda>ideal_v.
       new_result score_v feedback_v keywords_v improvements_v ideal_v)))))"

definition evaluate ::
  "loads \<Rightarrow> new_evaluation_result \<Rightarrow> 'st service \<Rightarrow> (string \<rightharpoonup> string) \<Rightarrow>
   string \<Rightarrow> string \<Rightarrow> string list \<Rightarrow> 'st \<Rightarrow> evaluation_result \<times> 'st" where
  "evaluate json_loads new_result svc getenv question answer context_keywords st =
     (let skipped = is_skipped answer;
          prompt = evaluation_prompt question answer skipped
      in case run_genai_with_rotation svc getenv prompt True None None st of
           (Inl e, s) \<Rightarrow>
             (fallback_evaluate question answer context_keywords (str_error e), svc_state s)
         | (Inr response_text, s) \<Rightarrow>
             (case and_then (json_loads (strip_fences response_text)) (evaluation_of new_result) of
                Inl e \<Rightarrow>
                  (fallback_evaluate question answer context_keywords (str_error e),
                   svc_state s)
              | Inr result \<Rightarrow> (result, svc_state s)))"

subsection \<open>Example: a strict constructor and a service that always answers\<close>

fun as_str :: "json \<Rightarrow> string option" where
  "as_str (JStr s) = Some s"
| "as_str v = None"

definition as_str_list :: "json \<Rightarrow> string list option" where
  "as_str_list v =
     (case v of
        JList xs \<Rightarrow> if list_all (\<lambda>x. as_str x \<noteq> None) xs then Some (map (\<lambda>x. the (as_str x)) xs)
                    else None
      | _ \<Rightarrow> None)"

definition strict_evaluation_result :: new_evaluation_result where
  \<comment> \<open>accepts the values that have the declared types already, as every version of the
      constructor does\<close>
  "strict_evaluation_result score_v feedback_v keywords_v improvements_v ideal_v =
     (case (score_v, as_str feedback_v, as_str_list keywords_v, as_str improvements_v,
            as_str ideal_v) of
        (JInt n, Some f, Some ks, Some i, Some a) \<Rightarrow>
          Inr \<lparr>score = n, feedback = f, missing_keywords = ks, improvements = i,
               ideal_answer = a\<rparr>
      | _ \<Rightarrow> Inl (PyError ''ValidationError'' ''validation error for EvaluationResult''))"

definition svc_answers :: "string \<Rightarrow> unit service" where
  \<comment> \<open>every generation call succeeds with the given response text\<close>
  "svc_answers response_text =
     \<lparr>configure = (\<lambda>api_key st. (None, st)),
      upload_file = (\<lambda>path st. (Inr ''files/1'', st)),
      generate_content = (\<lambda>model_name is_json file prompt st. (Inr response_text, st)),
      delete_file = (\<lambda>f st. st)\<rparr>"

section \<open>Resume extraction (resume\_parser.py)\<close>

record resume_data =
  text_r :: string
  filename :: string
  file_type :: string
  skills :: "string list"
  experience :: "string list"
  projects :: "string list"

text \<open>
  The constructor \<open>ResumeData(text=..., filename=..., file_type=..., skills=...,
  experience=..., projects=...)\<close> on three strings and three values taken from a parsed
  response; where the source passes lists of strings it has built itself, the record is
  written directly.
\<close>

type_synonym new_resume_data =
  "string \<Rightarrow> string \<Rightarrow> string \<Rightarrow> json \<Rightarrow> json \<Rightarrow> json \<Rightarrow> error + resume_data"

text \<open>
  The uploaded file, as the readers find it: the pages \<open>PdfReader\<close> gives, each with the
  outcome of \<open>extract_text\<close>, or \<open>None\<close> when it cannot open the file; the paragraphs
  \<open>Document\<close> gives, or the exception it raises; the text \<open>open(...).read()\<close> gives, or the
  exception it raises.
\<close>

record document =
  filepath :: string
  pdf_pages :: "(error + string) list option"
  docx_paragraphs :: "error + string list"
  txt_content :: "error + string"

definition basename :: "string \<Rightarrow> string" where
  \<comment> \<open>\<open>os.path.basename\<close>, POSIX\<close>
  "basename p = rev (takeWhile (\<lambda>c. c \<noteq> CHR ''/'') (rev p))"

definition splitext_ext :: "string \<Rightarrow> string" where
  \<comment> \<open>\<open>os.path.splitext(p)[1]\<close>, POSIX: from the last dot of the base name, unless only
      dots precede it there\<close>
  "splitext_ext p =
     (let name = basename p;
          after = rev (takeWhile (\<lambda>c. c \<noteq> CHR ''.'') (rev name));
          before = take (length name - length after - 1) name
      in if CHR ''.'' \<in> set name \<and> list_ex (\<lambda>c. c \<noteq> CHR ''.'') before
         then CHR ''.'' # after else [])"

fun join :: "string \<Rightarrow> string list \<Rightarrow> string" where
  \<comment> \<open>\<open>sep.join(xs)\<close>\<close>
  "join sep [] = []"
| "join sep [x] = x"
| "join sep (x # y # ys) = x @ sep @ join sep (y # ys)"

definition extract_text_from_pdf :: "document \<Rightarrow> string" where
  "extract_text_from_pdf doc =
     (case pdf_pages doc of
        None \<Rightarrow> []
      | Some pages \<Rightarrow>
          concat (map (\<lambda>page. case page of Inl e \<Rightarrow> [] | Inr t \<Rightarrow> t @ ''\<newline>'') pages))"

definition extract_text_from_docx :: "document \<Rightarrow> error + string" where
  "extract_text_from_docx doc =
     (case docx_paragraphs doc of
        Inl e \<Rightarrow> Inl e
      | Inr paragraphs \<Rightarrow> Inr (join ''\<newline>'' paragraphs))"

subsection \<open>Keyword fallback\<close>

definition tech_keywords :: "string list" where
  "tech_keywords =
     [''python'', ''javascript'', ''react'', ''next.js'', ''node.js'', ''typescript'', ''java'',
      ''c++'', ''aws'', ''azure'', ''docker'', ''kubernetes'', ''sql'', ''mongodb'',
      ''postgresql'', ''git'', ''html'', ''css'', ''tailwind'', ''fastapi'', ''django'',
      ''flask'', ''spring'', ''agile'', ''scrum'', ''machine learning'', ''data science'',
      ''devops'', ''ci/cd'', ''rest api'', ''graphql'']"

definition is_alpha :: "char \<Rightarrow> bool" where
  \<comment> \<open>the ASCII letters\<close>
  "is_alpha c =
     (c \<in> set ''ABCDEFGHIJKLMNOPQRSTUVWXYZ'' \<or> c \<in> set ''abcdefghijklmnopqrstuvwxyz'')"

definition is_word_char :: "char \<Rightarrow> bool" where
  \<comment> \<open>the class \<open>\w\<close> of the regular expressions: the underscore and the characters
      \<open>str.isalnum\<close> accepts; above ASCII these are U+00AA, U+00B2, U+00B3, U+00B5, U+00B9,
      U+00BA, U+00BC to U+00BE, and U+00C0 to U+00FF without U+00D7 and U+00F7\<close>
  "is_word_char c =
     (is_alpha c \<or> c \<in> set ''0123456789'' \<or> c = CHR ''_''
      \<or> (of_char c :: nat) \<in> {170, 178, 179, 181, 185, 186, 188, 189, 190}
      \<or> (192 \<le> (of_char c :: nat) \<and> (of_char c :: nat) \<noteq> 215 \<and> (of_char c :: nat) \<noteq> 247))"

definition boundary :: "char option \<Rightarrow> char option \<Rightarrow> bool" where
  \<comment> \<open>\<open>\b\<close> between two neighbouring characters; \<open>None\<close> is an end of the text\<close>
  "boundary before after =
     ((case before of None \<Rightarrow> False | Some c \<Rightarrow> is_word_char c) \<noteq>
      (case after of None \<Rightarrow> False | Some c \<Rightarrow> is_word_char c))"

fun word_search :: "string \<Rightarrow> char option \<Rightarrow> string \<Rightarrow> bool" where
  \<comment> \<open>\<open>re.search(rf"\b{re.escape(kw)}\b", text, re.IGNORECASE)\<close> for a keyword in lower
      case that is not empty is \<open>word_search kw None text\<close>; the second argument is the
      character before the position\<close>
  "word_search kw before [] = False"
| "word_search kw before (c # s) =
     ((lower (take (length kw) (c # s)) = kw
       \<and> boundary before (Some c)
       \<and> boundary (Some ((c # s) ! (length kw - 1)))
            (if length kw < length (c # s) then Some ((c # s) ! length kw) else None))
      \<or> word_search kw (Some c) s)"

definition to_upper :: "char \<Rightarrow> char" where
  \<comment> \<open>on ASCII\<close>
  "to_upper c =
     (case map_of (zip ''abcdefghijklmnopqrstuvwxyz'' ''ABCDEFGHIJKLMNOPQRSTUVWXYZ'') c of
        Some u \<Rightarrow> u
      | None \<Rightarrow> c)"

fun title_from :: "bool \<Rightarrow> string \<Rightarrow> string" where
  \<comment> \<open>\<open>s.title()\<close> for an ASCII string, as the keywords are, is \<open>title_from False s\<close>: a
      letter after a letter is lowered, any other letter is raised\<close>
  "title_from previous_is_cased [] = []"
| "title_from previous_is_cased (c # s) =
     (if is_alpha c then
        (if previous_is_cased then to_lower c else to_upper c) # title_from True s
      else c # title_from False s)"

definition keyword_skills :: "string \<Rightarrow> string list" where
  "keyword_skills text =
     map (title_from False) (filter (\<lambda>kw. word_search kw None text) tech_keywords)"

definition keyword_experience :: "string \<Rightarrow> string list" where
  "keyword_experience text =
     take 10 (map strip (filter (\<lambda>line. length (strip line) > 50)
                           (split_at CHR 0x0A [] text)))"

definition fallback_keyword_extraction :: "string \<Rightarrow> json" where
  \<comment> \<open>the dict the source returns; its lists are \<open>keyword_skills\<close> and \<open>keyword_experience\<close>\<close>
  "fallback_keyword_extraction text =
     JObj [(''raw_text'', JStr text),
           (''skills'', JList (map JStr (keyword_skills text))),
           (''experience'', JList (map JStr (keyword_experience text))),
           (''projects'', JList [])]"

subsection \<open>The generation calls of the parser\<close>

definition multimodal_text_1 :: string where
  "multimodal_text_1 =
     ''\<newline>'' @
     ''        Extract all text from this resume AND organize it into a structured JSON object.\<newline>'' @
     ''        JSON fields:\<newline>'' @
     ''        - \"raw_text\": Every word found on the document.\<newline>'' @
     ''        - \"skills\": A list of technical and soft skills.\<newline>'' @
     ''        - \"experience\": A list of professional roles and achievements.\<newline>'' @
     ''        - \"projects\": A list of project names and descriptions.\<newline>'' @
     ''\<newline>'' @
     ''        Return ONLY a JSON object.\<newline>'' @
     ''        ''"

definition structuring_text_1 :: string where
  "structuring_text_1 =
     ''\<newline>'' @
     ''    Analyze the following resume text and extract the specific sections.\<newline>'' @
     ''    Organize them into a JSON object with these keys:\<newline>'' @
     ''    - \"skills\": A list of strings.\<newline>'' @
     ''    - \"experience\": A list of strings.\<newline>'' @
     ''    - \"projects\": A list of strings.\<newline>'' @
     ''\<newline>'' @
     ''    RESUME TEXT:\<newline>'' @
     ''    ---\<newline>'' @
     ''    ''"

definition structuring_text_2 :: string where
  "structuring_text_2 =
     ''\<newline>'' @
     ''    ---\<newline>'' @
     ''\<newline>'' @
     ''    Return ONLY a JSON object.\<newline>'' @
     ''    ''"

definition multimodal_failure :: "document \<Rightarrow> string \<Rightarrow> json" where
  \<comment> \<open>the \<open>except\<close> branch of \<open>parse_scanned_resume_multimodal\<close>\<close>
  "multimodal_failure doc err_msg =
     (if contains ''429'' err_msg \<and> length (extract_text_from_pdf doc) > 10
      then fallback_keyword_extraction (extract_text_from_pdf doc)
      else JObj [(''raw_text'', JStr (''AI_ERROR: '' @ err_msg)), (''skills'', JList []),
                 (''experience'', JList []), (''projects'', JList [])])"

definition parse_scanned_resume_multimodal ::
  "loads \<Rightarrow> 'st service \<Rightarrow> (string \<rightharpoonup> string) \<Rightarrow> document \<Rightarrow> 'st \<Rightarrow> json \<times> 'st" where
  "parse_scanned_resume_multimodal json_loads svc getenv doc st =
     (case run_genai_with_rotation svc getenv multimodal_text_1 True (Some (filepath doc))
             None st of
        (Inl e, s) \<Rightarrow> (multimodal_failure doc (str_error e), svc_state s)
      | (Inr response_text, s) \<Rightarrow>
          (case json_loads response_text of
             Inl e \<Rightarrow> (multimodal_failure doc (str_error e), svc_state s)
           | Inr data \<Rightarrow> (data, svc_state s)))"

definition py_or :: "json \<Rightarrow> json \<Rightarrow> json" where
  \<comment> \<open>\<open>a or b\<close>\<close>
  "py_or a b = (if truthy a then a else b)"

definition item_get :: "(string \<times> json) list \<Rightarrow> string \<Rightarrow> json" where
  \<comment> \<open>\<open>item.get(key)\<close>\<close>
  "item_get d key = (case map_of d key of None \<Rightarrow> JNull | Some v \<Rightarrow> v)"

definition item_or_empty :: "(string \<times> json) list \<Rightarrow> string \<Rightarrow> json" where
  \<comment> \<open>\<open>data.get(key, [])\<close>\<close>
  "item_or_empty m key = (case map_of m key of None \<Rightarrow> JList [] | Some v \<Rightarrow> v)"

definition clean_item :: "(json \<Rightarrow> string) \<Rightarrow> (json \<Rightarrow> string) \<Rightarrow> json \<Rightarrow> string" where
  "clean_item json_dumps py_str item =
     (case item of
        JStr s \<Rightarrow> s
      | JObj d \<Rightarrow>
          (let name = py_or (item_get d ''name'') (py_or (item_get d ''title'')
                        (py_or (item_get d ''role'') (item_get d ''skill'')))
           in if truthy name then (case name of JStr s \<Rightarrow> s | v \<Rightarrow> py_str v)
              else json_dumps item)
      | v \<Rightarrow> py_str v)"

definition clean_items :: "(json \<Rightarrow> string) \<Rightarrow> (json \<Rightarrow> string) \<Rightarrow> json \<Rightarrow> string list" where
  "clean_items json_dumps py_str raw_items =
     map (clean_item json_dumps py_str)
       (case raw_items of JList xs \<Rightarrow> xs | v \<Rightarrow> if truthy v then [v] else [])"

definition structure_resume_data ::
  "loads \<Rightarrow> (json \<Rightarrow> string) \<Rightarrow> (json \<Rightarrow> string) \<Rightarrow> 'st service \<Rightarrow> (string \<rightharpoonup> string) \<Rightarrow>
   string \<Rightarrow> 'st \<Rightarrow> (string list \<times> string list \<times> string list) \<times> 'st" where
  \<comment> \<open>the result is the three lists the caller reads from the returned dict, under the
      keys skills, experience and projects\<close>
  "structure_resume_data json_loads json_dumps py_str svc getenv raw_text st =
     (case run_genai_with_rotation svc getenv
             (structuring_text_1 @ raw_text @ structuring_text_2) True None None st of
        (Inl e, s) \<Rightarrow> (([], [], []), svc_state s)
      | (Inr response_text, s) \<Rightarrow>
          (case json_loads response_text of
             Inl e \<Rightarrow> (([], [], []), svc_state s)
           | Inr data \<Rightarrow>
               (case data of
                  JObj m \<Rightarrow>
                    ((clean_items json_dumps py_str (item_or_empty m ''skills''),
                      clean_items json_dumps py_str (item_or_empty m ''experience''),
                      clean_items json_dumps py_str (item_or_empty m ''projects'')),
                     svc_state s)
                | _ \<Rightarrow> (([], [], []), svc_state s))))"

definition placeholder_profile :: "string \<Rightarrow> string \<Rightarrow> resume_data" where
  "placeholder_profile name ext =
     \<lparr>text_r = ''Resume uploaded (image-based, quota exhausted)'', filename = name,
      file_type = ext, skills = [''General Software Development''],
      experience = [''Professional Experience''], projects = []\<rparr>"

definition native_text :: "document \<Rightarrow> error + string" where
  \<comment> \<open>the first step of \<open>parse_resume\<close>: the reader chosen by the extension\<close>
  "native_text doc =
     (let ext = lower (splitext_ext (filepath doc))
      in if ext = ''.pdf'' then Inr (extract_text_from_pdf doc)
         else if ext = ''.docx'' then extract_text_from_docx doc
         else if ext = ''.txt'' then txt_content doc
         else Inl (PyError ''ValueError'' (''Unsupported file format: '' @ ext)))"

text \<open>
  \<open>structure_resume_data\<close> catches every exception itself, so the \<open>try\<close> around its call
  in \<open>parse_resume\<close> never reaches its \<open>except\<close> branch, which is left out.
\<close>

definition parse_resume ::
  "loads \<Rightarrow> (json \<Rightarrow> string) \<Rightarrow> (json \<Rightarrow> string) \<Rightarrow> new_resume_data \<Rightarrow> 'st service \<Rightarrow>
   (string \<rightharpoonup> string) \<Rightarrow> document \<Rightarrow> 'st \<Rightarrow> (error + resume_data) \<times> 'st" where
  "parse_resume json_loads json_dumps py_str new_resume svc getenv doc st =
     (let ext = lower (splitext_ext (filepath doc));
          name = basename (filepath doc)
      in case native_text doc of
           Inl e \<Rightarrow> (Inl e, st)
         | Inr text \<Rightarrow>
             if length (strip text) < 50 then
               (case parse_scanned_resume_multimodal json_loads svc getenv doc st of
                  (data, st1) \<Rightarrow>
                    (case dict_get data ''raw_text'' (JStr []) of
                       Inl e \<Rightarrow> (Inl e, st1)
                     | Inr (JStr raw_text) \<Rightarrow>
                         (let extracted_text = strip raw_text
                          in if prefix ''AI_ERROR:'' extracted_text then
                               (let error_msg = strip (remove_all ''AI_ERROR:'' 0 extracted_text)
                                in if contains ''429'' error_msg then
                                     (let text = extract_text_from_pdf doc
                                      in if length text > 0 then
                                           (Inr \<lparr>text_r = text, filename = name,
                                                 file_type = ext,
                                                 skills = keyword_skills text,
                                                 experience = keyword_experience text,
                                                 projects = []\<rparr>, st1)
                                         else (Inr (placeholder_profile name ext), st1))
                                   else
                                     (Inl (PyError ''ValueError''
                                             (''AI Scan failed: '' @ error_msg)), st1))
                             else
                               (and_then (dict_get data ''skills'' (JList [])) (\<lambda>skills_v.
                                and_then (dict_get data ''experience'' (JList [])) (\<lambda>experience_v.
                                and_then (dict_get data ''projects'' (JList [])) (\<lambda>projects_v.
                                  new_resume extracted_text name ext skills_v experience_v
                                    projects_v))), st1))
                     | Inr v \<Rightarrow> (Inl (no_attribute v ''strip''), st1)))
             else
               (case structure_resume_data json_loads json_dumps py_str svc getenv
                       (strip text) st of
                  ((found_skills, found_experience, found_projects), st1) \<Rightarrow>
                    (Inr \<lparr>text_r = strip text, filename = name, file_type = ext,
                          skills = found_skills, experience = found_experience,
                          projects = found_projects\<rparr>, st1)))"

subsection \<open>Examples: a service out of quota and two small files\<close>

definition svc_quota :: "unit service" where
  \<comment> \<open>uploads succeed, every generation call fails on the usage limit\<close>
  "svc_quota =
     \<lparr>configure = (\<lambda>api_key st. (None, st)),
      upload_file = (\<lambda>path st. (Inr ''files/1'', st)),
      generate_content = (\<lambda>model_name is_json file prompt st.
         (Inl (ApiError 429 ''Resource has been exhausted (e.g. check quota).''), st)),
      delete_file = (\<lambda>f st. st)\<rparr>"

definition strict_resume_data :: new_resume_data where
  "strict_resume_data text name ext skills_v experience_v projects_v =
     (case (as_str_list skills_v, as_str_list experience_v, as_str_list projects_v) of
        (Some s, Some e, Some p) \<Rightarrow>
          Inr \<lparr>text_r = text, filename = name, file_type = ext, skills = s, experience = e,
               projects = p\<rparr>
      | _ \<Rightarrow> Inl (PyError ''ValidationError'' ''validation error for ResumeData''))"

definition pdf_with_marker :: document where
  \<comment> \<open>a PDF of one page whose text starts with the marker the parser uses for failures\<close>
  "pdf_with_marker =
     \<lparr>filepath = ''uploads/cv.pdf'', pdf_pages = Some [Inr ''AI_ERROR: scanned doc''],
      docx_paragraphs = Inl (PyError ''PackageNotFoundError'' ''Package not found''),
      txt_content = Inl (PyError ''UnicodeDecodeError'' ''invalid start byte'')\<rparr>"

definition short_txt :: document where
  \<comment> \<open>a short text file, which \<open>PdfReader\<close> cannot open\<close>
  "short_txt =
     \<lparr>filepath = ''uploads/cv.txt'', pdf_pages = None,
      docx_paragraphs = Inl (PyError ''PackageNotFoundError'' ''Package not found''),
      txt_content = Inr ''Python developer, AWS, Docker''\<rparr>"

definition padded_txt :: document where
  \<comment> \<open>a text file of 49 letters and a no-break space (U+00A0), 50 characters in all\<close>
  "padded_txt =
     \<lparr>filepath = ''uploads/notes.txt'', pdf_pages = None,
      docx_paragraphs = Inl (PyError ''PackageNotFoundError'' ''Package not found''),
      txt_content = Inr (replicate 49 CHR ''a'' @ [CHR 0xA0])\<rparr>"

section \<open>Question generation (question\_generator.py)\<close>

text \<open>The fixed parts of the prompt, in order; its non-ASCII characters are in UTF-8.\<close>

definition interview_text_1 :: string where
  "interview_text_1 =
     ''\<newline>'' @
     ''        You are a highly professional, senior technical recruiter and hiring manager. \<newline>'' @
     ''        Your objective is to conduct a NATURAL, FACE-TO-FACE, and ENGAGING mock interview.\<newline>'' @
     ''\<newline>'' @
     ''        ''"

definition interview_text_2 :: string where
  "interview_text_2 =
     ''\<newline>'' @
     ''        ''"

definition interview_text_3 :: string where
  "interview_text_3 =
     ''\<newline>'' @
     ''\<newline>'' @
     ''        CANDIDATE DATA:\<newline>'' @
     ''        Resume Content:\<newline>'' @
     ''        ---\<newline>'' @
     ''        ''"

definition interview_text_4 :: string where
  "interview_text_4 =
     ''\<newline>'' @
     ''        ---\<newline>'' @
     ''\<newline>'' @
     ''        ''"

definition interview_text_5 :: string where
  "interview_text_5 =
     ''\<newline>'' @
     ''\<newline>'' @
     ''        INTERVIEWER PERSONA (CRITICAL):\<newline>'' @
     ''        - **Sound Human**: Speak directly to the candidate as if you are in a room together.\<newline>'' @
     ''        - **No Meta-Commentary**: NEVER start a question with phrases like \"The job description mentions\", \"Based on your resume\", \"Since you used Python\", or \"According to the documentation\". Avoid referencing the JD or Resume explicitly in the question text.\<newline>'' @
     ''        - **Conversational Tone**: Use natural transitions. Don't be robotic.\<newline>'' @
     ''        - **Professional Curiosity**: Ask follow-up style questions that test depth.\<newline>'' @
     ''\<newline>'' @
     ''        FEW-SHOT EXAMPLES (HOW TO PHRASE QUESTIONS):\<newline>'' @
     ''        - '' @ [CHR 0xE2, CHR 0x9D, CHR 0x8C] @ '' BAD (Robotic): \"Based on your resume, you used React. What are hooks?\"\<newline>'' @
     ''        - '' @ [CHR 0xE2, CHR 0x9C, CHR 0x85] @ '' GOOD (Human): \"I noticed you worked on a few React projects. When you were building out the user interface, how did you decide when to use a custom hook versus a standard lifecycle method?\"\<newline>'' @
     ''        - '' @ [CHR 0xE2, CHR 0x9D, CHR 0x8C] @ '' BAD (Robotic): \"The job description emphasizes basic Python. Do you know list comprehensions?\"\<newline>'' @
     ''        - '' @ [CHR 0xE2, CHR 0x9C, CHR 0x85] @ '' GOOD (Human): \"For this role, we do a lot of data processing in Python. Could you talk me through a time you had to optimize a piece of logic'' @ [CHR 0xE2, CHR 0x80, CHR 0x94] @ ''maybe using something like list comprehensions'' @ [CHR 0xE2, CHR 0x80, CHR 0x94] @ ''to handle a larger dataset?\"\<newline>'' @
     ''\<newline>'' @
     ''        STRICT SEQUENCE OF QUESTIONS (IMMUTABLE):\<newline>'' @
     ''        Your output JSON MUST contain questions in exactly this logical order:\<newline>'' @
     ''        1. **MANDATORY FIRST QUESTION (ID: 1)**: You MUST start with a warm, professional introduction and then ask: \"To get us started, could you walk me through your background and what specifically interested you about this ''"

definition interview_text_6 :: string where
  "interview_text_6 =
     '' position?\" or a variation of \"Tell me about yourself.\" This is NOT optional.\<newline>'' @
     ''        2. **Role Fit (ID: 2)**: A natural follow-up on their motivation for the industry or current career direction.\<newline>'' @
     ''        3. **Experience Deep-Dive (30% of total)**: Conversational deep-dives into their resume projects.\<newline>'' @
     ''        4. **Skill Alignment (30% of total)**: Natural questions about role requirements (JD-based).\<newline>'' @
     ''        5. **Behavioral (20% of total)**: Teamwork/Conflict scenarios.\<newline>'' @
     ''        6. **The Signature Closing (Last ID)**: Professional wrap-up (e.g., \"Why hire you?\").\<newline>'' @
     ''\<newline>'' @
     ''        REINFORCED PHRASING RULES:\<newline>'' @
     ''        - NEVER use the words \"resume\", \"job description\", \"JD\", \"listing\", or \"document\" in your questions.\<newline>'' @
     ''        - Act as if you are speaking to the candidate in a real-time Zoom or in-person interview.\<newline>'' @
     ''        - Use phrases like \"I noticed...\", \"You mentioned...\", \"I'm curious about...\", \"Walk me through...\".\<newline>'' @
     ''\<newline>'' @
     ''        STRICT RULES:\<newline>'' @
     ''        - **No Labels**: Do not include category names (like \"Behavioral:\") inside the question text.\<newline>'' @
     ''        - **Context Field**: Short internal reason (e.g., \"[Resume] Deep-dive on React architecture\").\<newline>'' @
     ''\<newline>'' @
     ''        RESPONSE FORMAT:\<newline>'' @
     ''        Return a JSON object with a single key \"questions\" containing:\<newline>'' @
     ''        - id: Unique int (MUST correspond to the sequence order)\<newline>'' @
     ''        - text: The natural, human-sounding question text.\<newline>'' @
     ''        - type: \"technical\", \"behavioral\", or \"coding\"\<newline>'' @
     ''        - difficulty: \"easy\", \"medium\", or \"hard\"\<newline>'' @
     ''        - context: Concise internal reasoning.\<newline>'' @
     ''        - initial_code: (Optional) For coding questions.\<newline>'' @
     ''        Return ONLY raw JSON.\<newline>'' @
     ''        ''"

definition question_prompt ::
  "string \<Rightarrow> string \<Rightarrow> string \<Rightarrow> string \<Rightarrow> string \<Rightarrow> string" where
  "question_prompt quantity_instruction difficulty_instruction resume_text job_desc_section role =
     interview_text_1 @ quantity_instruction @ interview_text_2 @ difficulty_instruction @
     interview_text_3 @ resume_text @ interview_text_4 @ job_desc_section @
     interview_text_5 @ role @ interview_text_6"

text \<open>
  The response is JSON; the enforcer is modelled on the \<open>Question\<close> schema. A dict with
  the keys of the schema and values of their types is read as a question; a response
  holding any other dict is not followed by the model (the result is \<open>None\<close>).
\<close>

definition member_int :: "(string \<times> json) list \<Rightarrow> string \<Rightarrow> int option" where
  "member_int m key = (case map_of m key of Some (JInt i) \<Rightarrow> Some i | _ \<Rightarrow> None)"

definition member_str :: "(string \<times> json) list \<Rightarrow> string \<Rightarrow> string option" where
  "member_str m key = (case map_of m key of Some (JStr s) \<Rightarrow> Some s | _ \<Rightarrow> None)"

definition as_question :: "json \<Rightarrow> question option" where
  "as_question v =
     (case v of
        JObj m \<Rightarrow>
          if list_all (\<lambda>(key, _). key \<in> set [''id'', ''text'', ''type'', ''difficulty'',
                                              ''context'', ''initial_code'']) m
             \<and> (map_of m ''initial_code'' = None \<or> member_str m ''initial_code'' \<noteq> None)
          then
            (case (member_int m ''id'', member_str m ''text'', member_str m ''type'',
                   member_str m ''difficulty'', member_str m ''context'') of
               (Some i, Some t, Some ty, Some d, Some c) \<Rightarrow>
                 Some \<lparr>id_q = i, text_q = t, type_q = ty, difficulty = d, context_q = c,
                       initial_code = member_str m ''initial_code''\<rparr>
             | _ \<Rightarrow> None)
          else None
      | _ \<Rightarrow> None)"

fun select_questions :: "json \<Rightarrow> error + json" where
  \<comment> \<open>\<open>if "questions" in data: questions = data["questions"]\<close>,
      \<open>elif isinstance(data, list): questions = data\<close>, else the empty list\<close>
  "select_questions (JObj m) =
     Inr (case map_of m ''questions'' of Some v \<Rightarrow> v | None \<Rightarrow> JList [])"
| "select_questions (JList xs) =
     (if JStr ''questions'' \<in> set xs
      then Inl (PyError ''TypeError'' ''list indices must be integers or slices, not str'')
      else Inr (JList xs))"
| "select_questions (JStr s) =
     (if contains ''questions'' s
      then Inl (PyError ''TypeError'' ''string indices must be integers'')
      else Inr (JList []))"
| "select_questions v =
     Inl (PyError ''TypeError''
            (''argument of type '' @ [CHR 0x27] @ type_name v @ [CHR 0x27] @
             '' is not iterable''))"

fun is_dict :: "json \<Rightarrow> bool" where
  "is_dict (JObj m) = True"
| "is_dict v = False"

definition question_dicts :: "json \<Rightarrow> error + json list" where
  \<comment> \<open>what \<open>questions.sort(key=lambda x: x.get("id", 0))\<close> needs: a list, of dicts\<close>
  "question_dicts questions =
     (case questions of
        JList xs \<Rightarrow>
          (case filter (\<lambda>x. \<not> is_dict x) xs of
             [] \<Rightarrow> Inr xs
           | x # _ \<Rightarrow> Inl (no_attribute x ''get''))
      | v \<Rightarrow> Inl (no_attribute v ''sort''))"

definition generate_questions ::
  "loads \<Rightarrow> 'st service \<Rightarrow> (string \<rightharpoonup> string) \<Rightarrow> string \<Rightarrow> string \<Rightarrow> int \<Rightarrow> string \<Rightarrow> string \<Rightarrow>
   bool \<Rightarrow> 'st \<Rightarrow> question list option \<times> 'st" where
  "generate_questions json_loads svc getenv resume_text role num_questions difficulty_level
     job_description auto_select_count st =
     (let difficulty_instruction = ''Target difficulty: '' @ difficulty_level @ ''.'';
          quantity_instruction =
            (if auto_select_count
             then ''Select an optimal number of questions (5-12) based on the resume depth.''
             else ''Generate exactly '' @ show_int num_questions @ '' questions.'');
          job_desc_section =
            (if strip job_description \<noteq> []
             then ''--- JOB DESCRIPTION ---\<newline>'' @ slice_to 2000 job_description @
                  ''\<newline>---''
             else ''None provided.'');
          prompt = question_prompt quantity_instruction difficulty_instruction resume_text
                     job_desc_section role
      in case run_genai_with_rotation svc getenv prompt True None None st of
           (Inl e, s) \<Rightarrow>
             (Some (get_fallback_questions resume_text role num_questions), svc_state s)
         | (Inr response_text, s) \<Rightarrow>
             (case and_then (json_loads response_text)
                     (\<lambda>data. and_then (select_questions data) question_dicts) of
                Inl e \<Rightarrow>
                  (Some (get_fallback_questions resume_text role num_questions), svc_state s)
              | Inr dicts \<Rightarrow>
                  (if list_all (\<lambda>d. as_question d \<noteq> None) dicts
                   then Some (enforce_interview_structure
                                (sort_key id_q (map (\<lambda>d. the (as_question d)) dicts))
                                role num_questions)
                   else None,
                   svc_state s)))"

section \<open>Evaluation rules for strings\<close>

lemma contains_Nil [simp]: "contains k [] = (k = [])"
  by (simp add: contains_def)

lemma contains_Cons [simp]:
  "contains k (c # s) = (prefix k (c # s) \<or> contains k s)"
  by (simp add: contains_def sublist_Cons_right)

lemma contains_append_left: "contains k a \<Longrightarrow> contains k (a @ b)"
  by (simp add: contains_def sublist_append)

lemma contains_append_right: "contains k b \<Longrightarrow> contains k (a @ b)"
  by (simp add: contains_def sublist_append)

lemma lower_append: "lower (a @ b) = lower a @ lower b"
  by (simp add: lower_def)

lemma fill_gap_done: "\<not> int (length m) < t \<Longrightarrow> fill_gap t m i = m"
  by (subst fill_gap.simps) simp

lemma fill_gap_empty: "0 < t \<Longrightarrow> fill_gap t [] i = fill_gap t [emergency_question] i"
  by (subst fill_gap.simps) simp

lemma fill_gap_step:
  "int (length m) < t \<Longrightarrow> m \<noteq> [] \<Longrightarrow>
   fill_gap t m i =
     fill_gap t (m @ [add_context '' (Extended discussion)'' (m ! (i mod length m))]) (Suc i)"
  by (subst fill_gap.simps) simp

section \<open>The structure enforcer: shape of the result\<close>

lemma default_intro_is_intro: "is_intro_question (default_intro role)"
proof -
  define p where
    "p = ''To get us started, could you walk me through your background and what specifically interested you about this ''"
  have "contains ''walk me through your background'' (lower p)"
    unfolding p_def by (simp add: lower_def to_lower_def latin_upper_def latin_lower_def)
  then have "contains ''walk me through your background'' (lower (p @ role @ '' position?''))"
    by (simp only: lower_append contains_append_left)
  moreover have "text_q (default_intro role) = p @ role @ '' position?''"
    by (simp add: default_intro_def p_def)
  ultimately show ?thesis
    by (simp add: is_intro_question_def intro_keywords_def del: contains_Cons)
qed

lemma default_closing_is_closing: "is_closing_question (default_closing i)"
  by (simp add: is_closing_question_def closing_keywords_def default_closing_def lower_def to_lower_def latin_upper_def latin_lower_def)

lemma is_intro_id_update [simp]: "is_intro_question (q\<lparr>id_q := i\<rparr>) = is_intro_question q"
  by (simp add: is_intro_question_def)

lemma is_closing_id_update [simp]: "is_closing_question (q\<lparr>id_q := i\<rparr>) = is_closing_question q"
  by (simp add: is_closing_question_def)

lemma length_renumber [simp]: "length (renumber i qs) = length qs"
  by (induction qs arbitrary: i) auto

lemma renumber_Nil_iff [simp]: "(renumber i qs = []) = (qs = [])"
  by (cases qs) auto

lemma renumber_nth: "k < length qs \<Longrightarrow> renumber i qs ! k = (qs ! k)\<lparr>id_q := i + int k\<rparr>"
proof (induction qs arbitrary: i k)
  case Nil
  then show ?case by simp
next
  case (Cons q qs)
  then show ?case by (cases k) (auto simp: algebra_simps)
qed

lemma map_id_renumber: "map id_q (renumber i qs) = [i..i + int (length qs) - 1]"
proof (induction qs arbitrary: i)
  case Nil
  then show ?case by simp
next
  case (Cons q qs)
  have "[i..i + int (length (q # qs)) - 1] = i # [i + 1..i + 1 + int (length qs) - 1]"
    by (subst upto_rec1) (auto simp: algebra_simps)
  with Cons show ?case by simp
qed

lemma renumber_erase_ids:
  "map (\<lambda>q. q\<lparr>id_q := 0\<rparr>) (renumber i qs) = map (\<lambda>q. q\<lparr>id_q := 0\<rparr>) qs"
  by (induction qs arbitrary: i) auto

lemma renumber_same:
  "map id_q qs = [i..i + int (length qs) - 1] \<Longrightarrow> renumber i qs = qs"
proof (induction qs arbitrary: i)
  case Nil
  then show ?case by simp
next
  case (Cons q qs)
  have "[i..i + int (length (q # qs)) - 1] = i # [i + 1..i + 1 + int (length qs) - 1]"
    by (subst upto_rec1) (auto simp: algebra_simps)
  with Cons.prems have "id_q q = i" and "map id_q qs = [i + 1..i + 1 + int (length qs) - 1]"
    by auto
  with Cons.IH show ?case by simp
qed

lemma hd_renumber: "qs \<noteq> [] \<Longrightarrow> hd (renumber i qs) = (hd qs)\<lparr>id_q := i\<rparr>"
  by (cases qs) auto

lemma last_renumber:
  "qs \<noteq> [] \<Longrightarrow> last (renumber i qs) = (last qs)\<lparr>id_q := i + int (length qs) - 1\<rparr>"
proof -
  assume ne: "qs \<noteq> []"
  then have "int (length qs - 1) = int (length qs) - 1"
    by (cases qs) auto
  with ne show ?thesis
    by (simp add: last_conv_nth renumber_nth)
qed

lemma enforce_valid:
  assumes "questions \<noteq> []" and "is_intro_question (hd questions)"
    and "length questions > 2 \<longrightarrow> is_closing_question (last questions)"
  shows "enforce_interview_structure questions role n = renumber 1 questions"
  using assms by (auto simp: enforce_interview_structure_def Let_def)

lemma q_tell_intro: "is_intro_question q_tell"
  by (simp add: is_intro_question_def intro_keywords_def q_tell_def lower_def to_lower_def latin_upper_def latin_lower_def)

lemma q_hire_closing: "is_closing_question q_hire"
  by (simp add: is_closing_question_def closing_keywords_def q_hire_def lower_def to_lower_def latin_upper_def latin_lower_def)

lemma q_mutex_plain: "\<not> is_intro_question q_mutex" "\<not> is_closing_question q_mutex"
  by (simp_all add: is_intro_question_def intro_keywords_def is_closing_question_def
      closing_keywords_def q_mutex_def lower_def to_lower_def latin_upper_def latin_lower_def)

lemma example_ids: "id_q q_tell = 1" "id_q q_mutex = 2" "id_q q_hire = 3"
  by (simp_all add: q_tell_def q_mutex_def q_hire_def)

text \<open>
  Claim C9. On a sequence that is already valid (its first question matches an intro
  pattern and, when it has more than two questions, its last one matches a closing
  pattern) the enforcer changes nothing but the ids, which become 1..length; it changes
  nothing at all when the ids are 1..length already, and running it again on its own
  result gives that result back.
\<close>

theorem enforce_idempotent_on_valid:
  assumes "questions \<noteq> []" and "is_intro_question (hd questions)"
    and "length questions > 2 \<longrightarrow> is_closing_question (last questions)"
  shows "let r = enforce_interview_structure questions role n in
           map (\<lambda>q. q\<lparr>id_q := 0\<rparr>) r = map (\<lambda>q. q\<lparr>id_q := 0\<rparr>) questions
           \<and> map id_q r = [1..int (length questions)]
           \<and> (map id_q questions = [1..int (length questions)] \<longrightarrow> r = questions)
           \<and> enforce_interview_structure r role' n' = r"
proof -
  let ?r = "renumber 1 questions"
  have r: "enforce_interview_structure questions role n = ?r"
    using assms by (rule enforce_valid)
  have ids: "map id_q ?r = [1..int (length questions)]"
    by (simp add: map_id_renumber)
  have valid_r: "?r \<noteq> []" "is_intro_question (hd ?r)"
    "length ?r > 2 \<longrightarrow> is_closing_question (last ?r)"
    using assms by (simp_all add: hd_renumber last_renumber)
  have "enforce_interview_structure ?r role' n' = renumber 1 ?r"
    using valid_r by (rule enforce_valid)
  also have "\<dots> = ?r"
    by (rule renumber_same) (simp add: map_id_renumber)
  finally have again: "enforce_interview_structure ?r role' n' = ?r" .
  have same: "map id_q questions = [1..int (length questions)] \<longrightarrow> ?r = questions"
    by (auto intro: renumber_same)
  show ?thesis
    unfolding Let_def r using ids same again by (simp add: renumber_erase_ids)
qed


theorem enforce_idempotent_on_valid_witness:
  "is_intro_question (hd [q_tell, q_mutex, q_hire])
   \<and> is_closing_question (last [q_tell, q_mutex, q_hire])
   \<and> enforce_interview_structure [q_tell, q_mutex, q_hire] ''Dev'' 5 = [q_tell, q_mutex, q_hire]"
  using enforce_idempotent_on_valid [of "[q_tell, q_mutex, q_hire]" "''Dev''" 5 "''Dev''" 5]
  by (simp add: q_tell_intro q_hire_closing example_ids upto_rec1 Let_def)

lemma extract_parts_intro:
  "extract_parts qs i c m = (i', c', m') \<Longrightarrow> (\<forall>q. i = Some q \<longrightarrow> is_intro_question q)
   \<Longrightarrow> i' = Some q' \<Longrightarrow> is_intro_question q'"
  by (induction qs i c m rule: extract_parts.induct) (auto split: if_splits)

lemma extract_parts_closing:
  "extract_parts qs i c m = (i', c', m') \<Longrightarrow> (\<forall>q. c = Some q \<longrightarrow> is_closing_question q)
   \<Longrightarrow> c' = Some q' \<Longrightarrow> is_closing_question q'"
  by (induction qs i c m rule: extract_parts.induct) (auto split: if_splits)

lemma fill_gap_length: "t \<le> int (length (fill_gap t m i))"
proof (induction t m i rule: fill_gap.induct)
  case (1 t m i)
  show ?case
  proof (cases "int (length m) < t")
    case True
    with 1 show ?thesis
      by (subst fill_gap.simps) (auto split: if_splits)
  next
    case False
    then show ?thesis
      by (subst fill_gap.simps) simp
  qed
qed

lemma map_id_take_renumber:
  "k \<le> length qs \<Longrightarrow> map id_q (take k (renumber i qs)) = [i..i + int k - 1]"
proof (induction qs arbitrary: i k)
  case Nil
  then show ?case by simp
next
  case (Cons q qs)
  show ?case
  proof (cases k)
    case 0
    then show ?thesis by simp
  next
    case (Suc j)
    have "[i..i + int (Suc j) - 1] = i # [i + 1..i + 1 + int j - 1]"
      by (subst upto_rec1) (auto simp: algebra_simps)
    with Cons Suc show ?thesis by simp
  qed
qed

text \<open>
  Claim C1, as the code has it. For every candidate list that is not empty and not
  already valid, and every requested count \<open>n \<ge> 1\<close>, the script has length exactly \<open>n\<close>,
  its ids are exactly 1..n in order, its first entry matches an intro pattern, and its
  last entry matches a closing pattern whenever \<open>n > 2\<close>. (An empty list is returned as it
  is, and an already valid list whole and renumbered, whatever the requested count.)
\<close>

theorem enforce_rebuild_shape:
  assumes ne: "questions \<noteq> []"
    and invalid: "\<not> (is_intro_question (hd questions)
                   \<and> (length questions \<le> 2 \<or> is_closing_question (last questions)))"
    and n: "1 \<le> n"
  shows "let r = enforce_interview_structure questions role n in
           length r = nat n \<and> map id_q r = [1..n] \<and> is_intro_question (hd r)
           \<and> (2 < n \<longrightarrow> is_closing_question (last r))"
proof -
  obtain fi fc mq where ex: "extract_parts questions None None [] = (fi, fc, mq)"
    by (cases "extract_parts questions None None []") auto
  define intro_q where "intro_q = (case fi of None \<Rightarrow> default_intro role | Some q \<Rightarrow> q)"
  define closing_q where
    "closing_q = (if fc = None \<and> n > 2 then Some (default_closing 999) else fc)"
  define t where "t = n - (if closing_q \<noteq> None then 2 else 1)"
  define filled where "filled = fill_gap t mq 0"
  define final where
    "final = (case closing_q of Some c \<Rightarrow> [intro_q] @ slice_to t filled @ [c]
              | None \<Rightarrow> [intro_q] @ slice_to t filled)"
  have r: "enforce_interview_structure questions role n = slice_to n (renumber 1 final)"
    using ne invalid
    by (auto simp: enforce_interview_structure_def Let_def ex intro_q_def closing_q_def t_def
        filled_def final_def)
  have intro: "is_intro_question intro_q"
    using extract_parts_intro[OF ex] default_intro_is_intro
    by (auto simp: intro_q_def split: option.splits)
  have closing: "is_closing_question c" if "closing_q = Some c" for c
    using that extract_parts_closing[OF ex] default_closing_is_closing
    by (auto simp: closing_q_def split: if_splits)
  have big: "closing_q \<noteq> None" if "2 < n"
    using that by (auto simp: closing_q_def)
  have filled_len: "t \<le> int (length filled)"
    unfolding filled_def by (rule fill_gap_length)
  have hd_final: "hd final = intro_q" and final_ne: "final \<noteq> []"
    by (auto simp: final_def split: option.splits)
  have len_final: "nat n \<le> length final"
    using n filled_len
    by (auto simp: final_def t_def slice_to_def split: option.splits if_splits)
  have len_exact: "length final = nat n" if "2 \<le> n"
    using that filled_len
    by (auto simp: final_def t_def slice_to_def split: option.splits if_splits)
  have last_final: "is_closing_question (last final)" if "2 < n"
    using big[OF that] closing by (auto simp: final_def)
  have res: "slice_to n (renumber 1 final) = take (nat n) (renumber 1 final)"
    using n by (simp add: slice_to_def)
  have c1: "length (take (nat n) (renumber 1 final)) = nat n"
    using len_final by simp
  have c2: "map id_q (take (nat n) (renumber 1 final)) = [1..n]"
    using map_id_take_renumber[OF len_final, of 1] n by simp
  have c3: "is_intro_question (hd (take (nat n) (renumber 1 final)))"
    using n final_ne intro by (simp add: hd_take hd_renumber hd_final)
  have c4: "is_closing_question (last (take (nat n) (renumber 1 final)))" if "2 < n"
  proof -
    have "take (nat n) (renumber 1 final) = renumber 1 final"
      using len_exact that by simp
    then show ?thesis
      using last_final[OF that] final_ne by (simp add: last_renumber)
  qed
  show ?thesis
    unfolding Let_def r res using c1 c2 c3 c4 by simp
qed

theorem enforce_rebuild_shape_witness:
  "[q_mutex] \<noteq> [] \<and> \<not> is_intro_question (hd [q_mutex]) \<and> (1::int) \<le> 4
   \<and> length (enforce_interview_structure [q_mutex] ''Dev'' 4) = 4
   \<and> map id_q (enforce_interview_structure [q_mutex] ''Dev'' 4) = [1, 2, 3, 4]
   \<and> is_intro_question (hd (enforce_interview_structure [q_mutex] ''Dev'' 4))
   \<and> is_closing_question (last (enforce_interview_structure [q_mutex] ''Dev'' 4))"
  using enforce_rebuild_shape [of "[q_mutex]" 4 "''Dev''"]
  by (simp add: q_mutex_plain Let_def upto_rec1)

lemma enforce_two_questions:
  "enforce_interview_structure [q_mutex] ''Dev'' 2 =
     [default_intro ''Dev'', q_mutex\<lparr>id_q := 2\<rparr>]"
  by (simp add: enforce_interview_structure_def q_mutex_plain slice_to_def fill_gap_done
      default_intro_def)

text \<open>
  The claim as stated fails on the empty list and on an already valid list (both are
  returned with their own length, here 0 and 1, for a requested count of 3), and for a
  requested count of 2 the last entry need not match a closing pattern.
\<close>

theorem enforce_shape_counterexample:
  "length (enforce_interview_structure [] ''Dev'' 3) \<noteq> 3
   \<and> length (enforce_interview_structure [q_tell] ''Dev'' 3) \<noteq> 3
   \<and> \<not> is_closing_question (last (enforce_interview_structure [q_mutex] ''Dev'' 2))"
  by (simp add: enforce_two_questions q_mutex_plain)
    (simp add: enforce_interview_structure_def q_tell_intro)

section \<open>The static bank on the store\<close>

lemma deepcopy_eq: "deepcopy r h = (length h, h @ [h ! r])"
  by (simp add: deepcopy_def new_dict_def)

lemma append_context_new: "append_context (length h) tag (h @ [v]) = h @ [add_context tag v]"
  by (simp add: append_context_def)

lemma cyclic_fill_refs_step:
  "int (length fr) < n - 1 \<Longrightarrow> pool \<noteq> [] \<Longrightarrow>
   cyclic_fill_refs n pool fr i h =
     cyclic_fill_refs n pool (fr @ [length h]) (Suc i)
       (h @ [if i \<ge> length pool
             then add_context '' (Follow-up / Alternate angle)'' (h ! (pool ! (i mod length pool)))
             else h ! (pool ! (i mod length pool))])"
  by (subst cyclic_fill_refs.simps) (simp add: Let_def deepcopy_eq append_context_new)

lemma cyclic_fill_refs_done:
  "\<not> int (length fr) < n - 1 \<Longrightarrow> cyclic_fill_refs n pool fr i h = (fr, h)"
  by (subst cyclic_fill_refs.simps) simp

lemma cyclic_fill_refs_empty: "cyclic_fill_refs n [] fr i h = (fr, h)"
  by (subst cyclic_fill_refs.simps) simp

lemma cyclic_fill_done:
  "\<not> int (length f) < n - 1 \<Longrightarrow> cyclic_fill n pool f i = f"
  by (subst cyclic_fill.simps) simp

lemma cyclic_fill_empty: "cyclic_fill n [] f i = f"
  by (subst cyclic_fill.simps) simp

lemma cyclic_fill_step:
  "int (length f) < n - 1 \<Longrightarrow> pool \<noteq> [] \<Longrightarrow>
   cyclic_fill n pool f i =
     cyclic_fill n pool
       (f @ [if i \<ge> length pool
             then add_context '' (Follow-up / Alternate angle)'' (pool ! (i mod length pool))
             else pool ! (i mod length pool)]) (Suc i)"
  by (subst cyclic_fill.simps) (simp add: Let_def)

lemma upt_fresh_Cons: "[a..<a + Suc k] = a # [Suc a..<Suc a + k]"
  by (subst upt_rec) simp

lemma map_nth_append_old: "\<forall>r\<in>set rs. r < length h \<Longrightarrow> map ((!) (h @ ws)) rs = map ((!) h) rs"
  by (induction rs) (auto simp: nth_append)

lemma cyclic_fill_refs_sim:
  assumes "\<forall>r\<in>set pool. r < length h" and "length f = length fr"
  shows "\<exists>ws. cyclic_fill n (map ((!) h) pool) f i = f @ ws
           \<and> cyclic_fill_refs n pool fr i h = (fr @ [length h..<length h + length ws], h @ ws)"
  using assms
proof (induction n pool fr i h arbitrary: f rule: cyclic_fill_refs.induct)
  case (1 n pool fr i h)
  show ?case
  proof (cases "int (length fr) < n - 1 \<and> pool \<noteq> []")
    case False
    then show ?thesis
      using 1(3)
      by (auto simp: cyclic_fill_refs_done cyclic_fill_done cyclic_fill_refs_empty
          cyclic_fill_empty)
  next
    case True
    then have lt: "int (length fr) < n - 1" and ne: "pool \<noteq> []" by auto
    define b where "b = pool ! (i mod length pool)"
    define v where
      "v = (if i \<ge> length pool then add_context '' (Follow-up / Alternate angle)'' (h ! b)
            else h ! b)"
    have b_in: "b \<in> set pool" unfolding b_def using ne by simp
    have old: "map ((!) (h @ [v])) pool = map ((!) h) pool"
      using 1(2) by (rule map_nth_append_old)
    have pool': "\<forall>r\<in>set pool. r < length (h @ [v])"
      using 1(2) by auto
    have refs: "cyclic_fill_refs n pool fr i h =
                  cyclic_fill_refs n pool (fr @ [length h]) (Suc i) (h @ [v])"
      using cyclic_fill_refs_step[OF lt ne] by (simp add: v_def b_def)
    have vals: "cyclic_fill n (map ((!) h) pool) f i =
                  cyclic_fill n (map ((!) h) pool) (f @ [v]) (Suc i)"
      using cyclic_fill_step[of f n "map ((!) h) pool" i] lt ne 1(3)
      by (simp add: v_def b_def)
    have e1: "(length h, h @ [h ! b]) = deepcopy b h"
      by (simp add: deepcopy_eq)
    have e3: "h @ [v] =
        (if length pool \<le> i
         then append_context (length h) '' (Follow-up / Alternate angle)'' (h @ [h ! b])
         else h @ [h ! b])"
      by (simp add: v_def append_context_new)
    have len: "length (f @ [v]) = length (fr @ [length h])"
      using 1(3) by simp
    from 1(1)[OF lt ne b_def e1 refl e3 pool' len]
    obtain ws where
      ws1: "cyclic_fill n (map ((!) (h @ [v])) pool) (f @ [v]) (i + 1) = (f @ [v]) @ ws" and
      ws2: "cyclic_fill_refs n pool (fr @ [length h]) (i + 1) (h @ [v]) =
              ((fr @ [length h]) @ [length (h @ [v])..<length (h @ [v]) + length ws],
               (h @ [v]) @ ws)"
      by blast
    have "cyclic_fill n (map ((!) h) pool) f i = f @ (v # ws)"
      using vals ws1 by (simp add: old)
    moreover have "cyclic_fill_refs n pool fr i h =
        (fr @ [length h..<length h + length (v # ws)], h @ (v # ws))"
      using refs ws2 upt_fresh_Cons[of "length h" "length ws"] by (simp del: upt_Suc)
    ultimately show ?thesis by blast
  qed
qed


lemma set_id_new: "set_id (length h) i (h @ v # vs) = h @ v\<lparr>id_q := i\<rparr> # vs"
  by (simp add: set_id_def)

lemma renumber_refs_fresh:
  "renumber_refs i [length h..<length h + length vs] (h @ vs) = h @ renumber i vs"
proof (induction vs arbitrary: h i)
  case Nil
  then show ?case by simp
next
  case (Cons v vs)
  have "renumber_refs i [length h..<length h + length (v # vs)] (h @ v # vs) =
          renumber_refs (i + 1) [Suc (length h)..<Suc (length h) + length vs]
            ((h @ [v\<lparr>id_q := i\<rparr>]) @ vs)"
    using upt_fresh_Cons[of "length h" "length vs"] by (simp add: set_id_new del: upt_Suc)
  also have "\<dots> = (h @ [v\<lparr>id_q := i\<rparr>]) @ renumber (i + 1) vs"
    using Cons.IH[where h = "h @ [v\<lparr>id_q := i\<rparr>]" and i = "i + 1"] by simp
  finally show ?case by simp
qed

lemma map_nth_fresh: "map ((!) (h @ vs)) [length h..<length h + length vs] = vs"
  by (rule nth_equalityI) (auto simp: nth_append)

lemma slice_to_map: "map f (slice_to n xs) = slice_to n (map f xs)"
  by (simp add: slice_to_def take_map)

lemma bank_store_list:
  "bank_store = [bank_q1001, bank_q1002, bank_q1003, bank_q2001, bank_q2002, bank_q2003,
     bank_q3001, bank_q3002, bank_q5001, bank_q5002, bank_q5003,
     bank_q4001, bank_q4002, bank_q4003, bank_q4004]"
  by (simp add: bank_store_def QUESTION_BANK_def)

lemma gather_refs_bound: "\<forall>r\<in>set (gather_candidates_refs resume_text). r < 15"
  by (simp add: gather_candidates_refs_def BANK_REFS_def refs_get_def Let_def)

lemma gather_refs_values:
  "map ((!) (bank_store @ t)) (gather_candidates_refs resume_text) =
     gather_candidates resume_text"
  by (simp add: gather_candidates_refs_def gather_candidates_def BANK_REFS_def refs_get_def
      QUESTION_BANK_def bank_get_def bank_store_list Let_def)


lemma length_bank_store: "length bank_store = 15"
  by (simp add: bank_store_list)

lemma get_fallback_refs_eq:
  assumes "take 15 h = bank_store"
  shows "get_fallback_questions_refs resume_text role n h =
           (slice_to n [length h..<length h + length (build_sequence resume_text role n)],
            h @ renumber 1 (build_sequence resume_text role n))"
proof -
  obtain t where h: "h = bank_store @ t"
    using assms by (metis append_take_drop_id)
  have len: "15 \<le> length h"
    by (simp add: h length_bank_store)
  define intro where "intro = default_intro role"
  define pool where "pool = gather_candidates_refs resume_text"
  define F where "F = build_sequence resume_text role n"
  have pool_ok: "\<forall>r\<in>set pool. r < length (h @ [intro])"
    using gather_refs_bound[of resume_text] len by (auto simp: pool_def)
  have "map ((!) (bank_store @ (t @ [intro]))) pool = gather_candidates resume_text"
    unfolding pool_def by (rule gather_refs_values)
  then have vals: "map ((!) (h @ [intro])) pool = gather_candidates resume_text"
    by (simp add: h)
  from cyclic_fill_refs_sim[OF pool_ok, of "[intro]" "[length h]" n 0]
  obtain ws where
    ws1: "cyclic_fill n (gather_candidates resume_text) [intro] 0 = [intro] @ ws" and
    ws2: "cyclic_fill_refs n pool [length h] 0 (h @ [intro]) =
            ([length h] @ [length (h @ [intro])..<length (h @ [intro]) + length ws],
             (h @ [intro]) @ ws)"
    by (auto simp: vals)
  have refs: "[length h] @ [length (h @ [intro])..<length (h @ [intro]) + length ws] =
                [length h..<length h + Suc (length ws)]"
    using upt_fresh_Cons[of "length h" "length ws"] by (simp del: upt_Suc)
  have ws2': "cyclic_fill_refs n pool [length h] 0 (h @ [intro]) =
                ([length h..<length h + Suc (length ws)], h @ intro # ws)"
    using ws2 refs by simp
  have "get_fallback_questions_refs resume_text role n h =
          (slice_to n [length h..<length h + length F],
           renumber_refs 1 [length h..<length h + length F] (h @ F))"
  proof (cases "n > 1")
    case True
    then have F: "F = intro # ws @ [default_closing 9999]"
      by (simp add: F_def build_sequence_def ws1 intro_def[symmetric])
    have "[length h..<length h + Suc (length ws)] @ [length (h @ intro # ws)] =
            [length h..<length h + length F]"
      by (simp add: F)
    then show ?thesis
      using True ws2'
      by (simp add: get_fallback_questions_refs_def new_dict_def pool_def[symmetric]
          intro_def[symmetric] F del: upt_Suc)
  next
    case False
    then have F: "F = intro # ws"
      by (simp add: F_def build_sequence_def ws1 intro_def[symmetric])
    show ?thesis
      using False ws2'
      by (simp add: get_fallback_questions_refs_def new_dict_def pool_def[symmetric]
          intro_def[symmetric] F del: upt_Suc)
  qed
  then show ?thesis
    by (simp add: renumber_refs_fresh F_def)
qed

lemma bank_prefix_length: "take 15 h = bank_store \<Longrightarrow> 15 \<le> length h"
  using length_bank_store by (metis length_take min.cobounded1)

lemma run_calls_frame:
  "take 15 h = bank_store \<Longrightarrow> \<exists>ext. run_calls calls h = h @ ext"
proof (induction calls arbitrary: h)
  case Nil
  then show ?case by simp
next
  case (Cons c calls)
  obtain resume_text role n where c: "c = (resume_text, role, n)"
    by (cases c) auto
  define h' where "h' = h @ renumber 1 (build_sequence resume_text role n)"
  have "take 15 h' = bank_store"
    using Cons.prems bank_prefix_length[OF Cons.prems] by (simp add: h'_def)
  from Cons.IH[OF this] obtain ext where "run_calls calls h' = h' @ ext" by blast
  then show ?case
    using Cons.prems by (simp add: c get_fallback_refs_eq h'_def)
qed


lemma set_slice_to: "set (slice_to n xs) \<subseteq> set xs"
  by (auto simp: slice_to_def dest: in_set_takeD)

lemma distinct_slice_to: "distinct xs \<Longrightarrow> distinct (slice_to n xs)"
  by (simp add: slice_to_def)

text \<open>
  Claim C10. Let the store hold the bank at the references 0..14. After any series of
  calls of \<open>get_fallback_questions\<close> every dict that existed before is unchanged, the
  bank's entries among them; and a further call leaves them unchanged too, returns
  references to dicts allocated during that call only (the fresh intro and closing
  dicts and the deep copies), all distinct, and the questions it returns are those of
  the function on values, which depend on the arguments alone: identical calls return
  equal results.
\<close>

theorem fallback_never_mutates_bank:
  assumes "take 15 h = bank_store"
  shows "take (length h) (run_calls calls h) = h
         \<and> (case get_fallback_questions_refs resume_text role n (run_calls calls h) of
              (rs, h') \<Rightarrow>
                take (length h) h' = h
                \<and> (\<forall>r\<in>set rs. length (run_calls calls h) \<le> r \<and> r < length h')
                \<and> distinct rs
                \<and> map ((!) h') rs = get_fallback_questions resume_text role n)"
proof -
  obtain ext where g: "run_calls calls h = h @ ext"
    using run_calls_frame[OF assms] by blast
  define F where "F = build_sequence resume_text role n"
  have bank: "take 15 (h @ ext) = bank_store"
    using assms bank_prefix_length[OF assms] by simp
  have call: "get_fallback_questions_refs resume_text role n (h @ ext) =
                (slice_to n [length (h @ ext)..<length (h @ ext) + length F],
                 (h @ ext) @ renumber 1 F)"
    unfolding F_def using bank by (rule get_fallback_refs_eq)
  have fresh: "\<forall>r\<in>set (slice_to n [length (h @ ext)..<length (h @ ext) + length F]).
                 length (h @ ext) \<le> r \<and> r < length ((h @ ext) @ renumber 1 F)"
    using set_slice_to[of n "[length (h @ ext)..<length (h @ ext) + length F]"] by auto
  have dist: "distinct (slice_to n [length (h @ ext)..<length (h @ ext) + length F])"
    by (rule distinct_slice_to) simp
  have "map ((!) ((h @ ext) @ renumber 1 F))
          [length (h @ ext)..<length (h @ ext) + length (renumber 1 F)] = renumber 1 F"
    by (rule map_nth_fresh)
  then have vals: "map ((!) ((h @ ext) @ renumber 1 F))
          (slice_to n [length (h @ ext)..<length (h @ ext) + length F]) =
        get_fallback_questions resume_text role n"
    by (simp add: slice_to_map get_fallback_questions_def F_def)
  show ?thesis
    unfolding g call using fresh dist vals by simp
qed

theorem fallback_never_mutates_bank_witness:
  "take 15 bank_store = bank_store
   \<and> take 15 (run_calls [(''I used React and Docker'', ''Backend Engineer'', 6),
                          (''python'', ''Dev'', 40)] bank_store) = bank_store"
  using fallback_never_mutates_bank [of bank_store
      "[(''I used React and Docker'', ''Backend Engineer'', 6), (''python'', ''Dev'', 40)]"]
  by (simp add: length_bank_store)

section \<open>The static bank: the scenario of the specification\<close>

lemma gather_react:
  "gather_candidates ''I used React and Docker'' =
     [bank_q3001, bank_q3002, bank_q5001, bank_q5002, bank_q5003,
      bank_q4001, bank_q4002, bank_q4003, bank_q4004]"
  by (simp add: gather_candidates_def QUESTION_BANK_def bank_get_def lower_def to_lower_def latin_upper_def latin_lower_def)

lemma scenario_value:
  "get_fallback_questions ''I used React and Docker'' ''Backend Engineer'' 6 =
     [default_intro ''Backend Engineer'', bank_q3001\<lparr>id_q := 2\<rparr>, bank_q3002\<lparr>id_q := 3\<rparr>,
      bank_q5001\<lparr>id_q := 4\<rparr>, bank_q5002\<lparr>id_q := 5\<rparr>, (default_closing 9999)\<lparr>id_q := 6\<rparr>]"
  by (simp add: get_fallback_questions_def build_sequence_def gather_react cyclic_fill_step
      cyclic_fill_done slice_to_def) (simp add: default_intro_def)

lemma bank_ids:
  "id_q bank_q3001 = 3001" "id_q bank_q3002 = 3002" "id_q bank_q5001 = 5001"
  "id_q bank_q5002 = 5002" "id_q (default_intro role) = 1"
  by (simp_all add: bank_q3001_def bank_q3002_def bank_q5001_def bank_q5002_def
      default_intro_def)

text \<open>
  Claim C7, as the code has it. The call returns exactly six questions with the ids
  1..6: the intro question, whose text names the role ``Backend Engineer'', the two
  questions of the react category, the first two of the general\_technical category, and
  the closing question. The bank has no docker category, so nothing is drawn from one.
\<close>

theorem fallback_scenario_result:
  "get_fallback_questions ''I used React and Docker'' ''Backend Engineer'' 6 =
     [default_intro ''Backend Engineer'', bank_q3001\<lparr>id_q := 2\<rparr>, bank_q3002\<lparr>id_q := 3\<rparr>,
      bank_q5001\<lparr>id_q := 4\<rparr>, bank_q5002\<lparr>id_q := 5\<rparr>, (default_closing 9999)\<lparr>id_q := 6\<rparr>]
   \<and> length (get_fallback_questions ''I used React and Docker'' ''Backend Engineer'' 6) = 6
   \<and> map id_q (get_fallback_questions ''I used React and Docker'' ''Backend Engineer'' 6) =
       [1, 2, 3, 4, 5, 6]
   \<and> is_intro_question
       (hd (get_fallback_questions ''I used React and Docker'' ''Backend Engineer'' 6))
   \<and> contains ''Backend Engineer''
       (text_q (hd (get_fallback_questions ''I used React and Docker'' ''Backend Engineer'' 6)))
   \<and> is_closing_question
       (last (get_fallback_questions ''I used React and Docker'' ''Backend Engineer'' 6))
   \<and> list_ex (drawn_from ''react'')
       (get_fallback_questions ''I used React and Docker'' ''Backend Engineer'' 6)
   \<and> map_of QUESTION_BANK ''docker'' = None"
proof -
  have "contains ''Backend Engineer'' (text_q (default_intro ''Backend Engineer''))"
    by (simp add: default_intro_def)
  moreover have "drawn_from ''react'' (bank_q3001\<lparr>id_q := 2\<rparr>)"
    by (simp add: drawn_from_def bank_get_def QUESTION_BANK_def)
  moreover have "map_of QUESTION_BANK ''docker'' = None"
    by (simp add: QUESTION_BANK_def)
  ultimately show ?thesis
    by (simp add: scenario_value default_intro_is_intro default_closing_is_closing bank_ids)
qed

text \<open>
  The claim as stated asks for a question drawn from the docker category: the result
  holds none.
\<close>

theorem fallback_scenario_docker_counterexample:
  "\<not> list_ex (drawn_from ''docker'')
       (get_fallback_questions ''I used React and Docker'' ''Backend Engineer'' 6)"
  by (simp add: scenario_value drawn_from_def bank_get_def QUESTION_BANK_def)

section \<open>Cyclic filling and its tags\<close>

text \<open>
  The filling loop of the static bank keeps its pool fixed: the entry made at index \<open>k\<close>
  is the pool's entry \<open>k mod length pool\<close>, tagged once when \<open>k\<close> has wrapped around and
  untouched before.
\<close>

lemma cyclic_fill_shape:
  assumes "pool \<noteq> []" and "length f = Suc i"
  shows "cyclic_fill n pool f i =
           f @ map (\<lambda>k. if k \<ge> length pool
                        then add_context '' (Follow-up / Alternate angle)''
                               (pool ! (k mod length pool))
                        else pool ! k) [i..<nat (n - 2)]"
  using assms
proof (induction n pool f i rule: cyclic_fill.induct)
  case (1 n pool f i)
  let ?new = "if i \<ge> length pool
              then add_context '' (Follow-up / Alternate angle)'' (pool ! (i mod length pool))
              else pool ! (i mod length pool)"
  show ?case
  proof (cases "int (length f) < n - 1")
    case True
    then have lt: "i < nat (n - 2)" using 1(3) by simp
    have "cyclic_fill n pool f i = cyclic_fill n pool (f @ [?new]) (Suc i)"
      using True 1(2) by (rule cyclic_fill_step)
    also have "\<dots> = (f @ [?new]) @
          map (\<lambda>k. if k \<ge> length pool
                    then add_context '' (Follow-up / Alternate angle)''
                           (pool ! (k mod length pool))
                    else pool ! k) [Suc i..<nat (n - 2)]"
      using 1(1)[OF True 1(2) refl refl 1(2)] 1(3) by simp
    finally show ?thesis
      using lt by (simp add: upt_conv_Cons)
  next
    case False
    then have "\<not> i < nat (n - 2)" using 1(3) by simp
    with False show ?thesis by (simp add: cyclic_fill_done)
  qed
qed

lemma context_q_mutex: "context_q q_mutex = ''Concurrency''"
  by (simp add: q_mutex_def)

text \<open>
  Claim C8, at the enforcer. One candidate question and a requested count of 5: the
  middle pool has one source entry and must grow to three. The loop takes its index
  modulo the length of the growing list, so the second clone is made from the first
  clone, not from the source entry, and carries the tag twice.
\<close>

theorem gap_fill_tags_twice:
  "map context_q (enforce_interview_structure [q_mutex] ''Dev'' 5) =
     [''Opening question to establish rapport'', ''Concurrency'',
      ''Concurrency (Extended discussion)'',
      ''Concurrency (Extended discussion) (Extended discussion)'',
      ''Closing question to assess self-awareness and fit'']"
  by (simp add: enforce_interview_structure_def q_mutex_plain slice_to_def fill_gap_done
      fill_gap_step default_intro_def default_closing_def add_context_def context_q_mutex)

section \<open>The rotation: each pair once, no model after a quota failure\<close>

lemma show_nat_429: "show_nat 429 = ''429''" "show_nat 500 = ''500''"
  by (simp_all add: show_nat.simps)

lemma release_attempts [simp]: "attempts (release svc f s) = attempts s"
  by (simp add: release_def split: option.splits)

lemma upload_attempts:
  "upload_for_key svc path s = (u, s') \<Longrightarrow> attempts s' = attempts s"
  by (auto simp: upload_for_key_def split: option.splits if_splits prod.splits sum.splits)

lemma model_loop_order:
  assumes "model_loop svc k is_json f p j ms s = (r, s')"
    and "sorted_wrt in_order (attempts s)"
    and "\<forall>a\<in>set (attempts s). fst a < k \<or> (fst a = k \<and> fst (snd a) < j \<and> \<not> is_quota_failure a)"
  shows "sorted_wrt in_order (attempts s') \<and> (\<forall>a\<in>set (attempts s'). fst a \<le> k)"
  using assms
proof (induction ms arbitrary: j s)
  case Nil
  then show ?case by auto
next
  case (Cons m ms)
  obtain out st where gen: "generate_content svc m is_json f p (svc_state s) = (out, st)"
    by (cases "generate_content svc m is_json f p (svc_state s)") auto
  define a where "a = (k, j, out)"
  define s1e where
    "s1e = (case out of
              Inl e \<Rightarrow> s\<lparr>svc_state := st, last_error := Some e, attempts := attempts s @ [a]\<rparr>
            | Inr _ \<Rightarrow> s\<lparr>svc_state := st, attempts := attempts s @ [a]\<rparr>)"
  have att: "attempts s1e = attempts s @ [a]"
    by (simp add: s1e_def split: sum.splits)
  have "\<forall>b\<in>set (attempts s). in_order b a"
    using Cons.prems(3) by (auto simp: in_order_def a_def)
  then have sorted1: "sorted_wrt in_order (attempts s1e)"
    using Cons.prems(2) by (simp add: att sorted_wrt_append)
  have le1: "\<forall>b\<in>set (attempts s1e). fst b \<le> k"
    using Cons.prems(3) by (auto simp: att a_def)
  show ?case
  proof (cases "is_quota_failure a \<or> (\<exists>t. out = Inr t \<and> t \<noteq> [])")
    case True
    then have "attempts s' = attempts s1e"
      using Cons.prems(1) gen
      by (auto simp: att a_def s1e_def is_quota_failure_def Let_def
          split: sum.splits error_class.splits if_splits)
    then show ?thesis using sorted1 le1 by simp
  next
    case False
    then have rec: "model_loop svc k is_json f p (j + 1) ms s1e = (r, s')"
      using Cons.prems(1) gen
      by (auto simp: a_def s1e_def is_quota_failure_def Let_def
          split: sum.splits error_class.splits if_splits)
    have inv: "\<forall>b\<in>set (attempts s1e).
                 fst b < k \<or> (fst b = k \<and> fst (snd b) < j + 1 \<and> \<not> is_quota_failure b)"
      using Cons.prems(3) False by (auto simp: att a_def)
    from Cons.IH[OF rec sorted1 inv] show ?thesis .
  qed
qed

lemma key_loop_order:
  assumes "key_loop svc is_json path ms p k keys s = (r, s')"
    and "sorted_wrt in_order (attempts s)"
    and "\<forall>a\<in>set (attempts s). fst a < k"
  shows "sorted_wrt in_order (attempts s')"
  using assms
proof (induction keys arbitrary: k s)
  case Nil
  then show ?case by auto
next
  case (Cons key keys)
  obtain cfg st where cfg: "configure svc key (svc_state s) = (cfg, st)"
    by (cases "configure svc key (svc_state s)") auto
  show ?case
  proof (cases cfg)
    case (Some err)
    with Cons.prems(1) cfg
    have rec: "key_loop svc is_json path ms p (k + 1) keys (s\<lparr>svc_state := st\<rparr>) = (r, s')"
      by simp
    show ?thesis
      by (rule Cons.IH[OF rec]) (use Cons.prems(2,3) in \<open>auto intro: less_SucI\<close>)
  next
    case None
    obtain u s1 where up: "upload_for_key svc path (s\<lparr>svc_state := st\<rparr>) = (u, s1)"
      by (cases "upload_for_key svc path (s\<lparr>svc_state := st\<rparr>)") auto
    have att1: "attempts s1 = attempts s"
      using upload_attempts[OF up] by simp
    show ?thesis
    proof (cases u)
      case Skip_key
      with Cons.prems(1) cfg None up
      have rec: "key_loop svc is_json path ms p (k + 1) keys s1 = (r, s')"
        by simp
      show ?thesis
        by (rule Cons.IH[OF rec]) (use Cons.prems(2,3) att1 in \<open>auto intro: less_SucI\<close>)
    next
      case (Ready f)
      obtain r2 s2 where ml: "model_loop svc k is_json f p 0 ms s1 = (r2, s2)"
        by (cases "model_loop svc k is_json f p 0 ms s1") auto
      have inv: "sorted_wrt in_order (attempts s2) \<and> (\<forall>a\<in>set (attempts s2). fst a \<le> k)"
        by (rule model_loop_order[OF ml]) (use Cons.prems(2,3) att1 in auto)
      show ?thesis
      proof (cases r2)
        case (Some t)
        with Cons.prems(1) cfg None up Ready ml have "s' = s2" by simp
        with inv show ?thesis by simp
      next
        case None2: None
        with Cons.prems(1) cfg None up Ready ml
        have rec: "key_loop svc is_json path ms p (k + 1) keys (release svc f s2) = (r, s')"
          by simp
        show ?thesis
          by (rule Cons.IH[OF rec]) (use inv in \<open>auto simp: less_Suc_eq_le\<close>)
      qed
    qed
  qed
qed

lemma rotation_order:
  "sorted_wrt in_order
     (attempts (snd (run_genai_with_rotation svc getenv prompt is_json path custom st)))"
proof -
  let ?s0 = "\<lparr>svc_state = st, last_error = None, attempts = []\<rparr>"
  let ?ms = "case custom of None \<Rightarrow> CANDIDATE_MODELS
             | Some ms \<Rightarrow> if ms = [] then CANDIDATE_MODELS else ms"
  obtain r s where kl: "key_loop svc is_json path ?ms prompt 0 (get_api_keys getenv) ?s0 = (r, s)"
    by (cases "key_loop svc is_json path ?ms prompt 0 (get_api_keys getenv) ?s0") auto
  have "sorted_wrt in_order (attempts s)"
    by (rule key_loop_order[OF kl]) auto
  then show ?thesis
    by (auto simp: run_genai_with_rotation_def Let_def kl split: option.splits)
qed

text \<open>
  Claim C3. In the attempts of one rotation call no pair of a key index and a model
  index occurs twice, and after an attempt with a key that failed with an error
  classified as Quota no later attempt uses that key.
\<close>

theorem rotation_attempts_once:
  "distinct (map (\<lambda>a. (fst a, fst (snd a)))
       (attempts (snd (run_genai_with_rotation svc getenv prompt is_json path custom st))))
   \<and> (\<forall>i j e. i < j
         \<and> j < length (attempts (snd (run_genai_with_rotation svc getenv prompt is_json path custom st)))
         \<and> snd (snd (attempts (snd (run_genai_with_rotation svc getenv prompt is_json path custom st)) ! i)) = Inl e
         \<and> classify_error (str_error e) = Quota
       \<longrightarrow> fst (attempts (snd (run_genai_with_rotation svc getenv prompt is_json path custom st)) ! j)
           \<noteq> fst (attempts (snd (run_genai_with_rotation svc getenv prompt is_json path custom st)) ! i))"
proof -
  define tr where
    "tr = attempts (snd (run_genai_with_rotation svc getenv prompt is_json path custom st))"
  have ord: "in_order (tr ! i) (tr ! j)" if "i < j" "j < length tr" for i j
    using rotation_order[of svc getenv prompt is_json path custom st] that
    by (simp add: tr_def sorted_wrt_iff_nth_less)
  have "distinct (map (\<lambda>a. (fst a, fst (snd a))) tr)"
  proof (subst distinct_conv_nth, intro allI impI)
    fix i j
    assume "i < length (map (\<lambda>a. (fst a, fst (snd a))) tr)"
      "j < length (map (\<lambda>a. (fst a, fst (snd a))) tr)" "i \<noteq> j"
    then consider "i < j" "j < length tr" | "j < i" "i < length tr"
      by (cases "i < j") auto
    then show "map (\<lambda>a. (fst a, fst (snd a))) tr ! i \<noteq> map (\<lambda>a. (fst a, fst (snd a))) tr ! j"
    proof cases
      case 1
      then show ?thesis using ord[of i j] by (auto simp: in_order_def)
    next
      case 2
      then show ?thesis using ord[of j i] by (auto simp: in_order_def)
    qed
  qed
  moreover have "fst (tr ! j) \<noteq> fst (tr ! i)"
    if "i < j" "j < length tr" "snd (snd (tr ! i)) = Inl e" "classify_error (str_error e) = Quota"
    for i j e
    using ord[OF that(1,2)] that(3,4) by (auto simp: in_order_def is_quota_failure_def)
  ultimately show ?thesis
    unfolding tr_def by blast
qed

lemma demo_run:
  "attempts (snd (run_genai_with_rotation svc_two_keys [''RECRUITER_API_KEYS'' \<mapsto> ''key0, key1'']
      ''Hello'' True None None [])) =
   [(0, 0, Inl (ApiError 429 ''Resource exhausted'')), (1, 0, Inr ''ok'')]"
  by (simp add: run_genai_with_rotation_def get_api_keys_def strip_def is_space_def
      CANDIDATE_MODELS_def svc_two_keys_def classify_error_def show_nat_429 release_def
      upload_for_key_def Let_def)

theorem rotation_attempts_once_witness:
  "snd (snd (attempts (snd (run_genai_with_rotation svc_two_keys
       [''RECRUITER_API_KEYS'' \<mapsto> ''key0, key1''] ''Hello'' True None None [])) ! 0)) =
     Inl (ApiError 429 ''Resource exhausted'')
   \<and> classify_error (str_error (ApiError 429 ''Resource exhausted'')) = Quota
   \<and> fst (attempts (snd (run_genai_with_rotation svc_two_keys
       [''RECRUITER_API_KEYS'' \<mapsto> ''key0, key1''] ''Hello'' True None None [])) ! 1) \<noteq>
     fst (attempts (snd (run_genai_with_rotation svc_two_keys
       [''RECRUITER_API_KEYS'' \<mapsto> ''key0, key1''] ''Hello'' True None None [])) ! 0)"
  using rotation_attempts_once [of svc_two_keys "[''RECRUITER_API_KEYS'' \<mapsto> ''key0, key1'']"
      "''Hello''" True None None "[]", THEN conjunct2, rule_format,
      where i = 0 and j = 1 and e = "ApiError 429 ''Resource exhausted''"]
  by (simp add: demo_run classify_error_def show_nat_429)

section \<open>Classification of errors\<close>

text \<open>
  Claim C4, as the code has it. The class of an error is decided by substring tests on
  \<open>str(e)\<close>: Quota when the rendering contains ``429'', else ModelUnavailable when it
  contains ``404'', else Transient. The rendering of a Python exception is its message
  and that of a service error is its status code followed by its message, so the
  message text takes part in the test.
\<close>

theorem classify_error_by_substring:
  "(classify_error err_str = Quota \<longleftrightarrow> (\<exists>a b. err_str = a @ ''429'' @ b))
   \<and> (classify_error err_str = ModelUnavailable \<longleftrightarrow>
        (\<nexists>a b. err_str = a @ ''429'' @ b) \<and> (\<exists>a b. err_str = a @ ''404'' @ b))
   \<and> (classify_error err_str = Transient \<longleftrightarrow>
        (\<nexists>a b. err_str = a @ ''429'' @ b) \<and> (\<nexists>a b. err_str = a @ ''404'' @ b))
   \<and> classify_error (str_error (PyError class_name message)) = classify_error message
   \<and> classify_error (str_error (ApiError status message)) =
       classify_error (show_nat status @ '' '' @ message)"
  by (auto simp: classify_error_def contains_def sublist_def)

text \<open>
  Two errors with the same status code, and two with no code at all, that differ in
  their message text only and fall into different classes.
\<close>

theorem classify_error_counterexample:
  "classify_error (str_error (ApiError 500 ''Internal error'')) \<noteq>
     classify_error (str_error (ApiError 500 ''Internal error after 429 retries''))
   \<and> classify_error (str_error (PyError ''JSONDecodeError''
         ''Expecting value: line 1 column 1 (char 0)'')) \<noteq>
     classify_error (str_error (PyError ''JSONDecodeError''
         ''Expecting value: line 1 column 429 (char 428)''))"
  by (simp add: classify_error_def show_nat_429)

section \<open>The evaluator on a skipped answer\<close>




lemma fallback_score [simp]: "score (fallback_evaluate q a ks msg) = 0"
  by (simp add: fallback_evaluate_def)



lemma get_one_key: "get_api_keys [''RECRUITER_API_KEYS'' \<mapsto> ''key0''] = [''key0'']"
  by (simp add: get_api_keys_def strip_def is_space_def)






lemma no_keys: "get_api_keys Map.empty = []"
  by (simp add: get_api_keys_def)




section \<open>The features without a credential\<close>

lemma rotation_no_keys:
  "get_api_keys getenv = [] \<Longrightarrow>
   run_genai_with_rotation svc getenv prompt is_json path custom st =
     (Inl (PyError ''ValueError'' ''No GEMINI_API_KEY found in .env''),
      \<lparr>svc_state = st, last_error = None, attempts = []\<rparr>)"
  by (simp add: run_genai_with_rotation_def)

lemma multimodal_no_keys:
  "multimodal_failure doc ''No GEMINI_API_KEY found in .env'' =
     JObj [(''raw_text'', JStr ''AI_ERROR: No GEMINI_API_KEY found in .env''),
           (''skills'', JList []), (''experience'', JList []), (''projects'', JList [])]"
  by (simp add: multimodal_failure_def)

lemma marker_no_keys:
  "strip ''AI_ERROR: No GEMINI_API_KEY found in .env'' =
     ''AI_ERROR: No GEMINI_API_KEY found in .env''"
  "strip (remove_all ''AI_ERROR:'' 0 ''AI_ERROR: No GEMINI_API_KEY found in .env'') =
     ''No GEMINI_API_KEY found in .env''"
  by (simp_all add: strip_def is_space_def)

text \<open>
  Claim C6, as the code has it. With no usable credential the rotation raises the
  configuration error before any call to the service: no attempt is recorded and the
  state of the service is the one it started from. Each feature handles the error as it
  handles any failure of the generation call, and leaves the service untouched: question
  generation returns the questions of the static bank, answer evaluation returns the
  fallback result with score 0 and the error text in its feedback, and resume parsing
  returns a profile with empty lists when the native text, stripped of the white space
  around it, has 50 characters or more. Only resume parsing of a native text that strips
  to fewer than 50 characters fails, with the error wrapped as ``AI Scan failed''.
\<close>

theorem no_credential_outcomes:
  assumes "get_api_keys getenv = []"
  shows "run_genai_with_rotation svc getenv prompt is_json path custom st =
           (Inl (PyError ''ValueError'' ''No GEMINI_API_KEY found in .env''),
            \<lparr>svc_state = st, last_error = None, attempts = []\<rparr>)
         \<and> generate_questions json_loads svc getenv resume_text role num_questions
               difficulty_level job_description auto_select_count st =
             (Some (get_fallback_questions resume_text role num_questions), st)
         \<and> evaluate json_loads new_result svc getenv question answer context_keywords st =
             (fallback_evaluate question answer context_keywords
                ''No GEMINI_API_KEY found in .env'', st)
         \<and> (\<forall>text. native_text doc = Inr text \<longrightarrow>
               parse_resume json_loads json_dumps py_str new_resume svc getenv doc st =
                 (if length (strip text) < 50
                  then Inl (PyError ''ValueError''
                              ''AI Scan failed: No GEMINI_API_KEY found in .env'')
                  else Inr \<lparr>text_r = strip text, filename = basename (filepath doc),
                            file_type = lower (splitext_ext (filepath doc)),
                            skills = [], experience = [], projects = []\<rparr>, st))"
proof -
  note run = rotation_no_keys[OF assms]
  have c2: "generate_questions json_loads svc getenv resume_text role num_questions
               difficulty_level job_description auto_select_count st =
             (Some (get_fallback_questions resume_text role num_questions), st)"
    by (simp add: generate_questions_def run Let_def)
  have c3: "evaluate json_loads new_result svc getenv question answer context_keywords st =
             (fallback_evaluate question answer context_keywords
                ''No GEMINI_API_KEY found in .env'', st)"
    by (simp add: evaluate_def run Let_def)
  have c4: "parse_resume json_loads json_dumps py_str new_resume svc getenv doc st =
                 (if length (strip nt) < 50
                  then Inl (PyError ''ValueError''
                              ''AI Scan failed: No GEMINI_API_KEY found in .env'')
                  else Inr \<lparr>text_r = strip nt, filename = basename (filepath doc),
                            file_type = lower (splitext_ext (filepath doc)),
                            skills = [], experience = [], projects = []\<rparr>, st)"
    if "native_text doc = Inr nt" for nt
  proof (cases "length (strip nt) < 50")
    case True
    have "parse_scanned_resume_multimodal json_loads svc getenv doc st =
            (JObj [(''raw_text'', JStr ''AI_ERROR: No GEMINI_API_KEY found in .env''),
                   (''skills'', JList []), (''experience'', JList []), (''projects'', JList [])],
             st)"
      by (simp add: parse_scanned_resume_multimodal_def run multimodal_no_keys)
    then show ?thesis
      using True that
      by (simp add: parse_resume_def Let_def strip_def is_space_def)
  next
    case False
    then show ?thesis
      using that
      by (simp add: parse_resume_def Let_def structure_resume_data_def run)
  qed
  have c1: "run_genai_with_rotation svc getenv prompt is_json path custom st =
           (Inl (PyError ''ValueError'' ''No GEMINI_API_KEY found in .env''),
            \<lparr>svc_state = st, last_error = None, attempts = []\<rparr>)"
    by (rule run)
  show ?thesis
    using c1 c2 c3 c4 by auto
qed

lemma native_padded:
  "native_text padded_txt = Inr (replicate 49 CHR ''a'' @ [CHR 0xA0])"
  by (simp add: native_text_def padded_txt_def splitext_ext_def basename_def lower_def
      to_lower_def latin_upper_def latin_lower_def Let_def)

lemma strip_padded: "length (strip (replicate 49 CHR ''a'' @ [CHR 0xA0])) = 49"
  by (simp add: strip_def is_space_def)

theorem no_credential_outcomes_witness:
  "get_api_keys Map.empty = []
   \<and> generate_questions loads_flat (svc_answers []) Map.empty ''I used React and Docker''
        ''Backend Engineer'' 6 ''mixed'' [] False () =
       (Some (get_fallback_questions ''I used React and Docker'' ''Backend Engineer'' 6), ())
   \<and> score (fst (evaluate loads_flat strict_evaluation_result (svc_answers []) Map.empty
          ''What is React?'' ''A library.'' [] ())) = 0
   \<and> length (strip (replicate 49 CHR ''a'' @ [CHR 0xA0])) = 49
   \<and> fst (parse_resume loads_flat (\<lambda>v. []) (\<lambda>v. []) strict_resume_data (svc_answers [])
          Map.empty padded_txt ()) =
       Inl (PyError ''ValueError'' ''AI Scan failed: No GEMINI_API_KEY found in .env'')"
  using no_credential_outcomes [where getenv = Map.empty and svc = "svc_answers []"
      and json_loads = loads_flat and resume_text = "''I used React and Docker''"
      and role = "''Backend Engineer''" and num_questions = 6 and difficulty_level = "''mixed''"
      and job_description = "[]" and auto_select_count = False and st = "()"
      and new_result = strict_evaluation_result and question = "''What is React?''"
      and answer = "''A library.''" and context_keywords = "[]"
      and doc = padded_txt and json_dumps = "\<lambda>v. []" and py_str = "\<lambda>v. []"
      and new_resume = strict_resume_data, OF no_keys]
  by (simp add: no_keys fallback_score native_padded strip_padded)

text \<open>
  The claim as stated fails: with an empty environment question generation and answer
  evaluation both return a result object.
\<close>

theorem no_credential_fallback_counterexample:
  "get_api_keys Map.empty = []
   \<and> fst (generate_questions loads_flat (svc_answers []) Map.empty ''I used React and Docker''
          ''Backend Engineer'' 6 ''mixed'' [] False ()) =
       Some [default_intro ''Backend Engineer'', bank_q3001\<lparr>id_q := 2\<rparr>,
             bank_q3002\<lparr>id_q := 3\<rparr>, bank_q5001\<lparr>id_q := 4\<rparr>, bank_q5002\<lparr>id_q := 5\<rparr>,
             (default_closing 9999)\<lparr>id_q := 6\<rparr>]
   \<and> fst (evaluate loads_flat strict_evaluation_result (svc_answers []) Map.empty
          ''What is React?'' ''A library.'' [] ()) =
       \<lparr>score = 0,
        feedback = ''Evaluation service unavailable. Error: No GEMINI_API_KEY found in .env...'',
        missing_keywords = [], improvements = ''Check API Connection.'',
        ideal_answer = ''No ideal answer provided.''\<rparr>"
  by (simp add: no_keys generate_questions_def evaluate_def run_genai_with_rotation_def Let_def
      scenario_value fallback_evaluate_def slice_to_def)

section \<open>Resume parsing when the multimodal call is out of quota\<close>

lemma ext_pdf:
  "lower (splitext_ext ''uploads/cv.pdf'') = ''.pdf''" "basename ''uploads/cv.pdf'' = ''cv.pdf''"
  "lower (splitext_ext ''uploads/cv.txt'') = ''.txt''" "basename ''uploads/cv.txt'' = ''cv.txt''"
  by (simp_all add: splitext_ext_def basename_def lower_def to_lower_def latin_upper_def latin_lower_def Let_def)

lemma show_nat_quota: "show_nat 429 = ''429''"
  by (simp add: show_nat.simps)

lemma quota_run:
  "path \<noteq> [] \<Longrightarrow>
   fst (run_genai_with_rotation svc_quota [''RECRUITER_API_KEYS'' \<mapsto> ''key0''] prompt True
      (Some path) None ()) =
     Inl (ApiError 429 ''Resource has been exhausted (e.g. check quota).'')"
  by (simp add: run_genai_with_rotation_def get_one_key CANDIDATE_MODELS_def svc_quota_def
      upload_for_key_def release_def classify_error_def show_nat_quota Let_def)

lemma keyword_skills_short:
  "keyword_skills ''Python developer, AWS, Docker'' = [''Python'', ''Aws'', ''Docker'']"
  by code_simp

lemma quota_message:
  "str_error (ApiError 429 ''Resource has been exhausted (e.g. check quota).'') =
     ''429 Resource has been exhausted (e.g. check quota).''"
  by (simp add: show_nat_quota)

lemma pdf_text_marker: "extract_text_from_pdf pdf_with_marker = ''AI_ERROR: scanned doc\<newline>''"
  by (simp add: extract_text_from_pdf_def pdf_with_marker_def)

lemma pdf_text_short: "extract_text_from_pdf short_txt = []"
  by (simp add: extract_text_from_pdf_def short_txt_def)

lemma example_paths:
  "filepath pdf_with_marker = ''uploads/cv.pdf''" "filepath short_txt = ''uploads/cv.txt''"
  "txt_content short_txt = Inr ''Python developer, AWS, Docker''"
  by (simp_all add: pdf_with_marker_def short_txt_def)

lemma native_marker: "native_text pdf_with_marker = Inr ''AI_ERROR: scanned doc\<newline>''"
  by (simp add: native_text_def pdf_text_marker example_paths ext_pdf)

lemma native_short: "native_text short_txt = Inr ''Python developer, AWS, Docker''"
  by (simp add: native_text_def example_paths ext_pdf)

lemma multimodal_marker:
  "parse_scanned_resume_multimodal json_loads svc_quota [''RECRUITER_API_KEYS'' \<mapsto> ''key0'']
     pdf_with_marker () =
   (fallback_keyword_extraction ''AI_ERROR: scanned doc\<newline>'', ())"
proof -
  obtain r s where run: "run_genai_with_rotation svc_quota [''RECRUITER_API_KEYS'' \<mapsto> ''key0'']
      multimodal_text_1 True (Some (filepath pdf_with_marker)) None () = (r, s)"
    by (rule prod.exhaust)
  have "r = Inl (ApiError 429 ''Resource has been exhausted (e.g. check quota).'')"
    using quota_run[of "filepath pdf_with_marker" multimodal_text_1] run
    by (simp add: example_paths)
  with run show ?thesis
    by (simp add: parse_scanned_resume_multimodal_def multimodal_failure_def show_nat_quota
        pdf_text_marker)
qed

lemma multimodal_short:
  "parse_scanned_resume_multimodal json_loads svc_quota [''RECRUITER_API_KEYS'' \<mapsto> ''key0'']
     short_txt () =
   (JObj [(''raw_text'', JStr ''AI_ERROR: 429 Resource has been exhausted (e.g. check quota).''),
          (''skills'', JList []), (''experience'', JList []), (''projects'', JList [])], ())"
proof -
  obtain r s where run: "run_genai_with_rotation svc_quota [''RECRUITER_API_KEYS'' \<mapsto> ''key0'']
      multimodal_text_1 True (Some (filepath short_txt)) None () = (r, s)"
    by (rule prod.exhaust)
  have "r = Inl (ApiError 429 ''Resource has been exhausted (e.g. check quota).'')"
    using quota_run[of "filepath short_txt" multimodal_text_1] run
    by (simp add: example_paths)
  with run show ?thesis
    by (simp add: parse_scanned_resume_multimodal_def multimodal_failure_def show_nat_quota
        pdf_text_short)
qed

lemma contains_dropWhile:
  assumes "contains k s" and "k \<noteq> []" and "\<forall>c\<in>set k. \<not> P c"
  shows "contains k (dropWhile P s)"
  using assms(1)
proof (induction s)
  case Nil
  then show ?case by simp
next
  case (Cons c s)
  show ?case
  proof (cases "P c")
    case True
    have "\<not> prefix k (c # s)"
    proof
      assume "prefix k (c # s)"
      then have "hd k = c" using assms(2) by (cases k) auto
      then have "c \<in> set k" using assms(2) by (cases k) auto
      with assms(3) True show False by blast
    qed
    with Cons True show ?thesis by simp
  next
    case False
    with Cons.prems show ?thesis by simp
  qed
qed

lemma contains_rev: "contains (rev k) (rev s) = contains k s"
  by (simp add: contains_def)

lemma contains_strip:
  assumes "contains k s" and "k \<noteq> []" and "\<forall>c\<in>set k. \<not> is_space c"
  shows "contains k (strip s)"
proof -
  have "contains k (dropWhile is_space s)"
    using assms by (rule contains_dropWhile)
  then have "contains (rev k) (rev (dropWhile is_space s))"
    by (simp only: contains_rev)
  then have "contains (rev k) (dropWhile is_space (rev (dropWhile is_space s)))"
    using assms(2,3) by (intro contains_dropWhile) auto
  then have "contains (rev (rev k)) (rev (dropWhile is_space (rev (dropWhile is_space s))))"
    by (simp only: contains_rev)
  then show ?thesis
    by (simp add: strip_def)
qed

lemma remove_all_keeps_run:
  assumes "set k \<inter> set old = {}"
  shows "remove_all old 0 (k @ b) = k @ remove_all old 0 b"
  using assms
proof (induction k)
  case Nil
  then show ?case by simp
next
  case (Cons c k)
  have "\<not> (old \<noteq> [] \<and> prefix old (c # k @ b))"
  proof
    assume a: "old \<noteq> [] \<and> prefix old (c # k @ b)"
    then have "hd old = c" by (cases old) auto
    with a have "c \<in> set old" by (cases old) auto
    with Cons.prems show False by auto
  qed
  with Cons show ?case by auto
qed

lemma remove_all_contains:
  assumes "set k \<inter> set old = {}" and "k \<noteq> []"
  shows "n \<le> length a \<Longrightarrow> contains k (remove_all old n (a @ k @ b))"
proof (induction a arbitrary: n)
  case Nil
  then show ?case
    using assms(1) by (simp add: remove_all_keeps_run contains_def del: contains_Cons contains_Nil)
next
  case (Cons c a)
  show ?case
  proof (cases n)
    case (Suc m)
    with Cons show ?thesis by simp
  next
    case 0
    show ?thesis
    proof (cases "old \<noteq> [] \<and> prefix old (c # a @ k @ b)")
      case True
      have "length old \<le> length (c # a)"
      proof (rule ccontr)
        assume "\<not> length old \<le> length (c # a)"
        then have len: "length (c # a) < length old" by simp
        from True obtain r where "c # a @ k @ b = old @ r"
          by (auto simp: prefix_def)
        then have "old ! length (c # a) = (c # a @ k @ b) ! length (c # a)"
          using len by (metis nth_append)
        also have "\<dots> = hd k"
          using assms(2) by (cases k) (auto simp: nth_append nth_Cons')
        finally have "hd k \<in> set old"
          using len by (metis nth_mem)
        moreover have "hd k \<in> set k" using assms(2) by simp
        ultimately show False using assms(1) by blast
      qed
      then have "length old - 1 \<le> length a" by simp
      from Cons.IH[OF this] True 0 show ?thesis by simp
    next
      case False
      have "contains k (remove_all old 0 (a @ k @ b))"
        by (rule Cons.IH) simp
      with False 0 show ?thesis by auto
    qed
  qed
qed

lemma strip_keeps_prefix:
  assumes "p \<noteq> []" and "\<not> is_space (hd p)" and "\<not> is_space (last p)"
  shows "prefix p (strip (p @ t))"
proof -
  have front: "dropWhile is_space (p @ t) = p @ t"
    using assms(1,2) by (cases p) auto
  have "dropWhile is_space (rev p) = rev p"
    using assms(1,3) by (cases "rev p") (auto simp: last_rev[symmetric] simp del: last_rev)
  then have "dropWhile is_space (rev t @ rev p) =
      (if \<forall>c\<in>set (rev t). is_space c then [] else dropWhile is_space (rev t)) @ rev p"
    by (simp add: dropWhile_append)
  then obtain x where "dropWhile is_space (rev t @ rev p) = x @ rev p"
    by blast
  then have "strip (p @ t) = p @ rev x"
    by (simp add: strip_def front)
  then show ?thesis by simp
qed

lemma as_str_list_strings: "as_str_list (JList (map JStr xs)) = Some xs"
  by (simp add: as_str_list_def list_all_iff comp_def)

lemma as_str_list_empty: "as_str_list (JList []) = Some []"
  by (simp add: as_str_list_def)

text \<open>
  What the branch does for a PDF whose text does not start with the marker, when the
  rotation of the multimodal call ends in a quota error and the constructor accepts
  lists of strings: the keyword fallback on the text of the PDF, and the placeholder
  profile exactly when that text is empty.
\<close>

lemma quota_on_pdf_without_marker:
  assumes pdf: "lower (splitext_ext (filepath doc)) = ''.pdf''"
    and fail: "fst (run_genai_with_rotation svc getenv multimodal_text_1 True
                 (Some (filepath doc)) None st) = Inl e"
    and quota: "contains ''429'' (str_error e)"
    and short: "length (strip (extract_text_from_pdf doc)) < 50"
    and nomark: "\<not> prefix ''AI_ERROR:'' (strip (extract_text_from_pdf doc))"
  shows "fst (parse_resume json_loads json_dumps py_str strict_resume_data svc getenv doc st) =
           Inr (if extract_text_from_pdf doc = []
                then placeholder_profile (basename (filepath doc)) ''.pdf''
                else \<lparr>text_r = (if length (extract_text_from_pdf doc) > 10
                                then strip (extract_text_from_pdf doc)
                                else extract_text_from_pdf doc),
                      filename = basename (filepath doc), file_type = ''.pdf'',
                      skills = keyword_skills (extract_text_from_pdf doc),
                      experience = keyword_experience (extract_text_from_pdf doc),
                      projects = []\<rparr>)"
proof -
  define t where "t = extract_text_from_pdf doc"
  define raw where "raw = ''AI_ERROR: '' @ str_error e"
  have native: "native_text doc = Inr t"
    by (simp add: native_text_def pdf t_def)
  obtain r s where run: "run_genai_with_rotation svc getenv multimodal_text_1 True
      (Some (filepath doc)) None st = (r, s)"
    by (rule prod.exhaust)
  with fail have r: "r = Inl e" by simp
  have mm: "parse_scanned_resume_multimodal json_loads svc getenv doc st =
              (multimodal_failure doc (str_error e), svc_state s)"
    by (simp add: parse_scanned_resume_multimodal_def run r)
  show ?thesis
  proof (cases "length t > 10")
    case True
    then have data: "multimodal_failure doc (str_error e) = fallback_keyword_extraction t"
      using quota by (simp add: multimodal_failure_def t_def)
    have "t \<noteq> []" using True by auto
    then show ?thesis
      using True short nomark
      by (simp add: parse_resume_def native mm data fallback_keyword_extraction_def pdf
          t_def[symmetric] and_then_def strict_resume_data_def as_str_list_strings
          as_str_list_empty)
  next
    case False
    then have data: "multimodal_failure doc (str_error e) =
        JObj [(''raw_text'', JStr raw), (''skills'', JList []),
              (''experience'', JList []), (''projects'', JList [])]"
      by (simp add: multimodal_failure_def t_def raw_def)
    have "raw = ''AI_ERROR:'' @ ('' '' @ str_error e)"
      by (simp add: raw_def)
    moreover have "prefix ''AI_ERROR:'' (strip (''AI_ERROR:'' @ ('' '' @ str_error e)))"
      by (rule strip_keeps_prefix) (simp_all add: is_space_def)
    ultimately have marked: "prefix ''AI_ERROR:'' (strip raw)"
      by (simp only:)
    have k: "''429'' \<noteq> []" "\<forall>c\<in>set ''429''. \<not> is_space c"
      "set ''429'' \<inter> set ''AI_ERROR:'' = {}"
      by (simp_all add: is_space_def)
    have "contains ''429'' raw"
      unfolding raw_def using quota by (rule contains_append_right)
    then have "contains ''429'' (strip raw)"
      using k(1,2) by (rule contains_strip)
    then obtain a b where "strip raw = a @ ''429'' @ b"
      by (auto simp: contains_def sublist_def)
    then have "contains ''429'' (remove_all ''AI_ERROR:'' 0 (strip raw))"
      using remove_all_contains[OF k(3,1), of 0 a b] by simp
    then have again: "contains ''429'' (strip (remove_all ''AI_ERROR:'' 0 (strip raw)))"
      using k(1,2) by (rule contains_strip)
    show ?thesis
      using False short
      by (simp add: parse_resume_def native mm data marked again pdf t_def[symmetric]
          del: contains_Cons contains_Nil)
  qed
qed

text \<open>
  Claim C5, at two files, with a service whose every generation call fails on the usage
  limit. A PDF whose text starts with ``AI\_ERROR:'': the keyword fallback is applied, but its
  \<open>raw_text\<close> is then taken for the failure marker and \<open>parse_resume\<close> raises. A short text
  file: the fallback reads the file again with the PDF reader, finds nothing, and returns
  the placeholder profile although the native text holds three known skills.
\<close>

theorem quota_fallback_defects:
  "fst (parse_resume json_loads json_dumps py_str new_resume svc_quota
          [''RECRUITER_API_KEYS'' \<mapsto> ''key0''] pdf_with_marker ()) =
     Inl (PyError ''ValueError'' ''AI Scan failed: scanned doc'')
   \<and> native_text short_txt = Inr ''Python developer, AWS, Docker''
   \<and> keyword_skills ''Python developer, AWS, Docker'' = [''Python'', ''Aws'', ''Docker'']
   \<and> fst (parse_resume json_loads json_dumps py_str new_resume svc_quota
          [''RECRUITER_API_KEYS'' \<mapsto> ''key0''] short_txt ()) =
       Inr (placeholder_profile ''cv.txt'' ''.txt'')"
proof -
  have a: "fst (parse_resume json_loads json_dumps py_str new_resume svc_quota
          [''RECRUITER_API_KEYS'' \<mapsto> ''key0''] pdf_with_marker ()) =
     Inl (PyError ''ValueError'' ''AI Scan failed: scanned doc'')"
    by (simp add: parse_resume_def native_marker multimodal_marker fallback_keyword_extraction_def
        strip_def is_space_def Let_def example_paths ext_pdf)
  have b: "fst (parse_resume json_loads json_dumps py_str new_resume svc_quota
          [''RECRUITER_API_KEYS'' \<mapsto> ''key0''] short_txt ()) =
       Inr (placeholder_profile ''cv.txt'' ''.txt'')"
    by (simp add: parse_resume_def native_short multimodal_short pdf_text_short
        strip_def is_space_def Let_def example_paths ext_pdf)
  show ?thesis
    using a b native_short keyword_skills_short by simp
qed

end
